theory Spec2Isabelle
  imports Main "HOL-Library.Word"
begin

section \<open>Data: bytes, strings, results\<close>

text \<open>
  A Go \<open>[]byte\<close> is a list of 8-bit words; a Go \<open>string\<close> is a list of (8-bit)
  characters. The conversions \<open>[]byte(s)\<close> and \<open>string(b)\<close> copy the bytes unchanged.
\<close>

type_synonym byte = "8 word"
type_synonym bytes = "byte list"

definition bytes_of_string :: "string \<Rightarrow> bytes" where
  "bytes_of_string s = map of_char s"

definition string_of_bytes :: "bytes \<Rightarrow> string" where
  "string_of_bytes b = map (\<lambda>x. char_of (unat x)) b"

text \<open>
  Every error value the packages construct. A constructor with an \<open>error\<close> argument is a
  wrapping \<open>fmt.Errorf("...: %w", err)\<close>.
\<close>

datatype error =
    InvalidBlockSize int          \<comment> \<open>pkcs7: Invalid block size %d\<close>
  | InvalidDataLength nat         \<comment> \<open>pkcs7: Invalid data length %d\<close>
  | InvalidPadding                \<comment> \<open>pkcs7: Invalid padding\<close>
  | EncryptKeyLength nat          \<comment> \<open>aes.Encrypt: encryption key must be either 16, 24 or 32 bytes long. Current key length: %v\<close>
  | DecryptKeyLength              \<comment> \<open>aes.Decrypt: encryption key must be either 16, 24 or 32 bytes long\<close>
  | KeySizeError nat              \<comment> \<open>crypto/aes.NewCipher on a key of another length\<close>
  | ErrorWhenPadding error        \<comment> \<open>error when padding message with PKCS7: %w\<close>
  | ErrorCreatingCipher error     \<comment> \<open>error when creating new cipher: %w\<close>
  | ErrorWhenUnpadding error      \<comment> \<open>error when un-padding message with PKCS7: %w\<close>
  | CouldNotGenerateToken error   \<comment> \<open>could not generate token: %w\<close>
  | errToken                      \<comment> \<open>token is missing, invalid or has expired\<close>
  | EmptyToken                    \<comment> \<open>empty token\<close>
  | TokenNotTwoParts              \<comment> \<open>token must consist of two parts: signature and data\<close>
  | SignatureNotBase64            \<comment> \<open>signature must be base64 encoded\<close>
  | DataNotBase64                 \<comment> \<open>data must be base64 encoded\<close>
  | SignatureMismatch             \<comment> \<open>signature does not match data\<close>
  | FailedToDecrypt               \<comment> \<open>failed to decrypt data\<close>
  | MessageNotThreeParts          \<comment> \<open>decrypted message must consist of 3 parts: token kind, data and expiry date\<close>
  | KindMismatch                  \<comment> \<open>token doesn't match expected kind\<close>
  | InvalidExpiry                 \<comment> \<open>token does not include a valid expiry date\<close>
  | TokenExpired                  \<comment> \<open>token expired\<close>
  | PlaintextNotBase64            \<comment> \<open>failed to base64 decode plaintext message\<close>
  | errInvalidPwdh string         \<comment> \<open>string is not a valid passwordHash: %v\<close>
  | errInvalidPbkdf2Strategy      \<comment> \<open>invalid strategy, cannot create PBKDF2 hashing function\<close>
  | errInvalidStrategy            \<comment> \<open>invalid strategy, cannot create password hashing function\<close>

text \<open>
  What a call does: it returns a value, returns an error, or panics (a run-time panic of
  Go: an explicit \<open>panic\<close>, a slice bound out of range, a library precondition).
\<close>

datatype 'a outcome = Return 'a | Failure error | Panic

section \<open>Collaborators outside the repository\<close>

text \<open>
  The Go standard library, \<open>golang.org/x/crypto/pbkdf2\<close> and
  \<open>github.com/dusted-go/encoding/base62\<close> are not part of the repository; the model takes
  them as parameters. Instants are nanoseconds on the UTC time line (\<open>time.Time\<close>),
  durations are nanoseconds (\<open>time.Duration\<close>).
  \<^item> \<open>b64url_*\<close>: \<open>base64.RawURLEncoding\<close>; \<open>b64std_*\<close>: \<open>base64.StdEncoding\<close>
    (\<open>None\<close> is a decoding error);
  \<^item> \<open>hmac_sha256 key msg\<close>: \<open>hmac.New(sha256.New, key)\<close>, \<open>Write(msg)\<close>, \<open>Sum(nil)\<close>;
  \<^item> \<open>cbc_encrypt key iv src\<close>, \<open>cbc_decrypt key iv src\<close>: what \<open>CryptBlocks\<close> of
    \<open>cipher.NewCBCEncrypter\<close> / \<open>NewCBCDecrypter\<close> over the AES block of \<open>key\<close> writes;
  \<^item> \<open>rand_fail\<close>: \<open>crypto/rand.Read\<close> returns an error; \<open>rand_stream\<close>: the bytes it
    delivers otherwise;
  \<^item> \<open>format_rfc3339\<close>, \<open>parse_rfc3339\<close>: \<open>Time.Format(time.RFC3339)\<close> and
    \<open>time.Parse(time.RFC3339, _)\<close>;
  \<^item> \<open>pbkdf2_key password salt iter keyLen\<close>: \<open>pbkdf2.Key(password, salt, iter, keyLen, sha256.New)\<close>;
  \<^item> \<open>base62_decode\<close>: \<open>base62.DecodeToInt\<close>.
\<close>

record lib =
  b64url_encode :: "bytes \<Rightarrow> string"
  b64url_decode :: "string \<Rightarrow> bytes option"
  b64std_encode :: "bytes \<Rightarrow> string"
  b64std_decode :: "string \<Rightarrow> bytes option"
  hmac_sha256 :: "bytes \<Rightarrow> bytes \<Rightarrow> bytes"
  cbc_encrypt :: "bytes \<Rightarrow> bytes \<Rightarrow> bytes \<Rightarrow> bytes"
  cbc_decrypt :: "bytes \<Rightarrow> bytes \<Rightarrow> bytes \<Rightarrow> bytes"
  rand_fail :: bool
  rand_stream :: "nat \<Rightarrow> byte"
  format_rfc3339 :: "int \<Rightarrow> string"
  parse_rfc3339 :: "string \<Rightarrow> int option"
  pbkdf2_key :: "bytes \<Rightarrow> bytes \<Rightarrow> int \<Rightarrow> int \<Rightarrow> bytes"
  base62_decode :: "string \<Rightarrow> int"

text \<open>\<open>strings.SplitN(s, sep, n)\<close> and \<open>strings.Split(s, sep)\<close> for a one-character
  separator, and \<open>strings.HasPrefix\<close>.\<close>

fun cut :: "char \<Rightarrow> string \<Rightarrow> (string \<times> string) option" where
  "cut c [] = None"
| "cut c (x # xs) =
     (if x = c then Some ([], xs)
      else (case cut c xs of None \<Rightarrow> None | Some (a, b) \<Rightarrow> Some (x # a, b)))"

fun SplitN :: "string \<Rightarrow> char \<Rightarrow> nat \<Rightarrow> string list" where
  "SplitN s c 0 = []"
| "SplitN s c (Suc 0) = [s]"
| "SplitN s c (Suc (Suc n)) =
     (case cut c s of None \<Rightarrow> [s] | Some (a, rest) \<Rightarrow> a # SplitN rest c (Suc n))"

fun Split :: "string \<Rightarrow> char \<Rightarrow> string list" where
  "Split [] c = [[]]"
| "Split (x # xs) c =
     (if x = c then [] # Split xs c
      else (case Split xs c of [] \<Rightarrow> [[x]] | p # ps \<Rightarrow> (x # p) # ps))"

definition HasPrefix :: "string \<Rightarrow> string \<Rightarrow> bool" where
  "HasPrefix s p = (length p \<le> length s \<and> take (length p) s = p)"

section \<open>Package compare\<close>

definition Hashes :: "bytes \<Rightarrow> bytes \<Rightarrow> bool" where
  "Hashes hash1 hash2 =
     (if length hash1 \<noteq> length hash2 then False
      else foldl (\<lambda>equal (b, b2). equal \<and> b = b2) True (zip hash1 hash2))"

section \<open>Package rng\<close>

definition GenerateBytes :: "lib \<Rightarrow> int \<Rightarrow> bytes outcome" where
  "GenerateBytes L len =
     (if len < 0 then Panic
      else if rand_fail L then Panic
      else Return (map (rand_stream L) [0..<nat len]))"

section \<open>Package pkcs7\<close>

text \<open>
  \<open>blockSize\<close> and \<open>padLen\<close> are Go \<open>int\<close>s (no operation on them overflows here);
  \<open>byte(padLen)\<close> keeps the low 8 bits. The slice expression \<open>data[len(data)-padLen:]\<close>
  panics when \<open>padLen > len(data)\<close>.
\<close>

definition Pad :: "bytes \<Rightarrow> int \<Rightarrow> bytes outcome" where
  "Pad data blockSize =
     (if blockSize < 1 then Failure (InvalidBlockSize blockSize)
      else
        let padLen0 = blockSize - (int (length data) mod blockSize);
            padLen = (if padLen0 = 0 then blockSize else padLen0);
            padding = replicate (nat padLen) (word_of_int padLen :: byte)
        in Return (data @ padding))"

fun padding_ok :: "bytes \<Rightarrow> byte \<Rightarrow> bool" where
  "padding_ok [] b = True"
| "padding_ok (padByte # rest) b = (if padByte \<noteq> b then False else padding_ok rest b)"

definition Unpad :: "bytes \<Rightarrow> int \<Rightarrow> bytes outcome" where
  "Unpad data blockSize =
     (if blockSize < 1 then Failure (InvalidBlockSize blockSize)
      else if int (length data) mod blockSize \<noteq> 0 \<or> length data = 0
        then Failure (InvalidDataLength (length data))
      else
        let padLen = unat (last data)
        in if length data < padLen then Panic
           else
             let padding = drop (length data - padLen) data
             in if \<not> padding_ok padding (word_of_nat padLen) then Failure InvalidPadding
                else Return (take (length data - padLen) data))"

section \<open>Package sig\<close>

definition Compute :: "lib \<Rightarrow> bytes \<Rightarrow> bytes \<Rightarrow> bytes" where
  "Compute L key msg = hmac_sha256 L key msg"

definition Validate :: "lib \<Rightarrow> bytes \<Rightarrow> bytes \<Rightarrow> bytes \<Rightarrow> bool" where
  "Validate L key msg signature = (let actualSignature = Compute L key msg in Hashes signature actualSignature)"

definition ComputeSHA256 :: "lib \<Rightarrow> bytes \<Rightarrow> bytes \<Rightarrow> bytes" where
  "ComputeSHA256 L key msg = Compute L key msg"

definition ValidateSHA256 :: "lib \<Rightarrow> bytes \<Rightarrow> bytes \<Rightarrow> bytes \<Rightarrow> bool" where
  "ValidateSHA256 L key msg signature = Validate L key msg signature"

section \<open>Package aes\<close>

definition BlockSize :: nat where
  "BlockSize = 16"

text \<open>\<open>crypto/aes.NewCipher\<close>: the block of a key (represented by the key), or
  \<open>KeySizeError\<close>.\<close>

definition NewCipher :: "bytes \<Rightarrow> bytes outcome" where
  "NewCipher key =
     (if length key = 16 \<or> length key = 24 \<or> length key = 32 then Return key
      else Failure (KeySizeError (length key)))"

text \<open>
  \<open>cipher.NewCBCEncrypter(block, iv)\<close> (or the decrypter) followed by
  \<open>CryptBlocks(dst, src)\<close> with \<open>dst\<close> a fresh buffer of \<open>dstLen\<close> bytes: the constructor
  panics unless \<open>iv\<close> is one block long, \<open>CryptBlocks\<close> panics unless \<open>src\<close> is a whole
  number of blocks and \<open>dst\<close> is at least as long.
\<close>

definition CryptBlocks :: "(bytes \<Rightarrow> bytes \<Rightarrow> bytes \<Rightarrow> bytes) \<Rightarrow> bytes \<Rightarrow> bytes \<Rightarrow> nat \<Rightarrow> bytes \<Rightarrow> bytes outcome" where
  "CryptBlocks mode block iv dstLen src =
     (if length iv \<noteq> BlockSize then Panic
      else if length src mod BlockSize \<noteq> 0 then Panic
      else if dstLen < length src then Panic
      else Return (mode block iv src))"

definition Encrypt :: "lib \<Rightarrow> bytes \<Rightarrow> bytes \<Rightarrow> bytes outcome" where
  "Encrypt L key plain =
     (let keyLen = length key in
      if keyLen \<noteq> 16 \<and> keyLen \<noteq> 24 \<and> keyLen \<noteq> 32 then Failure (EncryptKeyLength keyLen)
      else
        (case Pad plain (int BlockSize) of
           Failure err \<Rightarrow> Failure (ErrorWhenPadding err)
         | Panic \<Rightarrow> Panic
         | Return paddedPlain \<Rightarrow>
            (let encryptedLen = length paddedPlain; ivLen = BlockSize in
             case GenerateBytes L (int ivLen) of
               Failure err \<Rightarrow> Failure err
             | Panic \<Rightarrow> Panic
             | Return iv \<Rightarrow>
                (case NewCipher key of
                   Failure err \<Rightarrow> Failure (ErrorCreatingCipher err)
                 | Panic \<Rightarrow> Panic
                 | Return block \<Rightarrow>
                    (case CryptBlocks (cbc_encrypt L) block iv encryptedLen paddedPlain of
                       Failure err \<Rightarrow> Failure err
                     | Panic \<Rightarrow> Panic
                     | Return encrypted \<Rightarrow> Return (iv @ encrypted))))))"

text \<open>
  In \<open>Decrypt\<close> the slice expression \<open>scrambled[ivLen:]\<close> panics when \<open>scrambled\<close> has
  fewer than \<open>ivLen\<close> bytes (whatever its capacity).
\<close>

definition Decrypt :: "lib \<Rightarrow> bytes \<Rightarrow> bytes \<Rightarrow> bytes outcome" where
  "Decrypt L key scrambled =
     (let keyLen = length key in
      if keyLen \<noteq> 16 \<and> keyLen \<noteq> 24 \<and> keyLen \<noteq> 32 then Failure DecryptKeyLength
      else
        let ivLen = BlockSize in
        if length scrambled < ivLen then Panic
        else
          let iv = take ivLen scrambled;
              encryptedBytes = drop ivLen scrambled;
              encryptedBytesLen = length encryptedBytes
          in case NewCipher key of
               Failure err \<Rightarrow> Failure (ErrorCreatingCipher err)
             | Panic \<Rightarrow> Panic
             | Return block \<Rightarrow>
                (case CryptBlocks (cbc_decrypt L) block iv encryptedBytesLen encryptedBytes of
                   Failure err \<Rightarrow> Failure err
                 | Panic \<Rightarrow> Panic
                 | Return paddedPlain \<Rightarrow>
                    (case Unpad paddedPlain (int BlockSize) of
                       Failure err \<Rightarrow> Failure (ErrorWhenUnpadding err)
                     | Panic \<Rightarrow> Panic
                     | Return plain \<Rightarrow> Return plain)))"

section \<open>Package token\<close>

text \<open>
  \<open>g_now\<close> and \<open>v_now\<close> are what the injected clock \<open>now()\<close> returns in the one call
  that \<open>Generate\<close> and \<open>Validate\<close> make.
\<close>

record Generator =
  g_now :: int
  g_encryptionKey :: bytes
  g_signingKey :: bytes

record Validator =
  v_now :: int
  v_encryptionKey :: bytes
  v_signingKey :: bytes

definition Generate :: "lib \<Rightarrow> Generator \<Rightarrow> string \<Rightarrow> bytes \<Rightarrow> int \<Rightarrow> string outcome" where
  "Generate L g kind data ttl =
     (let expiry = g_now g + ttl;
          encodedData = b64url_encode L data;
          plainText = kind @ ''.'' @ encodedData @ ''.'' @ format_rfc3339 L expiry
      in case Encrypt L (g_encryptionKey g) (bytes_of_string plainText) of
           Failure err \<Rightarrow> Failure (CouldNotGenerateToken err)
         | Panic \<Rightarrow> Panic
         | Return cipher \<Rightarrow>
            (let signature = ComputeSHA256 L (g_signingKey g) cipher;
                 token = b64url_encode L signature @ ''.'' @ b64url_encode L cipher
             in Return token))"

text \<open>\<open>validator.Validate\<close> (the validator behind the \<open>Validator\<close> interface): every
  rejection returns \<open>errToken\<close>.\<close>

definition validator_Validate :: "lib \<Rightarrow> Validator \<Rightarrow> string \<Rightarrow> string \<Rightarrow> bytes outcome" where
  "validator_Validate L v kind token =
     (if token = [] then Failure errToken
      else
        let expectedTokenParams = 2;
            tokenParts = SplitN token (CHR ''.'') expectedTokenParams
        in if length tokenParts \<noteq> expectedTokenParams then Failure errToken
        else
          (case b64url_decode L (tokenParts ! 0) of
             None \<Rightarrow> Failure errToken
           | Some signature \<Rightarrow>
          (case b64url_decode L (tokenParts ! 1) of
             None \<Rightarrow> Failure errToken
           | Some cipher \<Rightarrow>
          if \<not> ValidateSHA256 L (v_signingKey v) cipher signature then Failure errToken
          else
          (case Decrypt L (v_encryptionKey v) cipher of
             Failure err \<Rightarrow> Failure errToken
           | Panic \<Rightarrow> Panic
           | Return plain \<Rightarrow>
          (let expectedMsgParams = 3;
               msgParts = SplitN (string_of_bytes plain) (CHR ''.'') expectedMsgParams
           in if length msgParts \<noteq> expectedMsgParams then Failure errToken
           else
             let expectedKind = msgParts ! 0
             in if kind \<noteq> expectedKind then Failure errToken
             else
               (case parse_rfc3339 L (msgParts ! 2) of
                  None \<Rightarrow> Failure errToken
                | Some expiry \<Rightarrow>
                   if v_now v > expiry then Failure errToken
                   else
                     (case b64url_decode L (msgParts ! 1) of
                        None \<Rightarrow> Failure errToken
                      | Some data \<Rightarrow> Return data)))))))"

text \<open>\<open>Validator.Validate\<close> (the exported struct): the same steps, each rejection with an
  error of its own.\<close>

definition Validator_Validate :: "lib \<Rightarrow> Validator \<Rightarrow> string \<Rightarrow> string \<Rightarrow> bytes outcome" where
  "Validator_Validate L v kind token =
     (if token = [] then Failure EmptyToken
      else
        let expectedTokenParams = 2;
            tokenParts = SplitN token (CHR ''.'') expectedTokenParams
        in if length tokenParts \<noteq> expectedTokenParams then Failure TokenNotTwoParts
        else
          (case b64url_decode L (tokenParts ! 0) of
             None \<Rightarrow> Failure SignatureNotBase64
           | Some signature \<Rightarrow>
          (case b64url_decode L (tokenParts ! 1) of
             None \<Rightarrow> Failure DataNotBase64
           | Some cipher \<Rightarrow>
          if \<not> ValidateSHA256 L (v_signingKey v) cipher signature then Failure SignatureMismatch
          else
          (case Decrypt L (v_encryptionKey v) cipher of
             Failure err \<Rightarrow> Failure FailedToDecrypt
           | Panic \<Rightarrow> Panic
           | Return plain \<Rightarrow>
          (let expectedMsgParams = 3;
               msgParts = SplitN (string_of_bytes plain) (CHR ''.'') expectedMsgParams
           in if length msgParts \<noteq> expectedMsgParams then Failure MessageNotThreeParts
           else
             let expectedKind = msgParts ! 0
             in if kind \<noteq> expectedKind then Failure KindMismatch
             else
               (case parse_rfc3339 L (msgParts ! 2) of
                  None \<Rightarrow> Failure InvalidExpiry
                | Some expiry \<Rightarrow>
                   if v_now v > expiry then Failure TokenExpired
                   else
                     (case b64url_decode L (msgParts ! 1) of
                        None \<Rightarrow> Failure PlaintextNotBase64
                      | Some data \<Rightarrow> Return data)))))))"

section \<open>Package pwd\<close>

text \<open>
  A Go function value can be \<open>nil\<close>, and so can the pointer \<open>*passwordHash\<close>: both are
  options. A \<open>hashFunc\<close> itself is taken to return (the derived key). The fields of
  \<open>passwordHash\<close> carry the prefix \<open>ph_\<close>, those of \<open>Hasher\<close> \<open>h_\<close> and those of the
  package's \<open>Validator\<close> \<open>pv_\<close>.
\<close>

record passwordHash =
  ph_salt :: bytes
  ph_hash :: bytes
  ph_strategy :: string
  ph_base64Salt :: string
  ph_base64Hash :: string

type_synonym saltFunc = "int \<Rightarrow> bytes outcome"
type_synonym hashFunc = "bytes \<Rightarrow> bytes \<Rightarrow> bytes"
type_synonym hashFuncFactory = "string \<Rightarrow> hashFunc option outcome"
type_synonym parseHashFunc = "string \<Rightarrow> passwordHash option outcome"

definition passwordHash_String :: "passwordHash \<Rightarrow> string" where
  "passwordHash_String pwdh = ph_strategy pwdh @ ''.'' @ ph_base64Salt pwdh @ ''.'' @ ph_base64Hash pwdh"

definition defaultStrategy :: string where
  "defaultStrategy = ''pbkdf2/hmacsha256/12/G8''"

definition createPbkdf2Fn :: "lib \<Rightarrow> string \<Rightarrow> hashFunc option outcome" where
  "createPbkdf2Fn L strategy =
     (let expectedArgs = 4;
          args = SplitN strategy (CHR ''/'') expectedArgs
      in if length args \<noteq> expectedArgs then Failure errInvalidPbkdf2Strategy
      else
        let hashFuncName = args ! 1; encHashLength = args ! 2; encIterations = args ! 3
        in if hashFuncName \<noteq> ''hmacsha256'' then Failure errInvalidPbkdf2Strategy
        else
          let hashLength = base62_decode L encHashLength;
              iterations = base62_decode L encIterations
          in Return (Some (\<lambda>password salt. pbkdf2_key L password salt iterations hashLength)))"

definition supportedStrategies :: "lib \<Rightarrow> (string \<times> hashFuncFactory) list" where
  "supportedStrategies L = [(''pbkdf2'', createPbkdf2Fn L)]"

text \<open>The loop of \<open>createPasswordHashingStrategy\<close> over the entries of
  \<open>supportedStrategies\<close>.\<close>

fun first_supported :: "(string \<times> hashFuncFactory) list \<Rightarrow> string \<Rightarrow> hashFunc option outcome" where
  "first_supported [] strategy = Failure errInvalidStrategy"
| "first_supported ((key, createHash) # rest) strategy =
     (if HasPrefix strategy key then createHash strategy else first_supported rest strategy)"

definition createPasswordHashingStrategy :: "lib \<Rightarrow> string \<Rightarrow> hashFunc option outcome" where
  "createPasswordHashingStrategy L strategy =
     (if strategy = [] then Failure errInvalidStrategy
      else first_supported (supportedStrategies L) strategy)"

definition parsePasswordHash :: "lib \<Rightarrow> string \<Rightarrow> passwordHash option outcome" where
  "parsePasswordHash L pwdh =
     (if pwdh = [] then Failure (errInvalidPwdh pwdh)
      else
        let expectedParts = 3;
            actualParams = Split pwdh (CHR ''.'')
        in if length actualParams \<noteq> expectedParts then Failure (errInvalidPwdh pwdh)
        else
          let strategy = actualParams ! 0; encSalt = actualParams ! 1; encHash = actualParams ! 2
          in case b64std_decode L encSalt of
               None \<Rightarrow> Failure (errInvalidPwdh pwdh)
             | Some salt \<Rightarrow>
                (case b64std_decode L encHash of
                   None \<Rightarrow> Failure (errInvalidPwdh pwdh)
                 | Some hash \<Rightarrow>
                    Return (Some \<lparr>ph_salt = salt, ph_hash = hash, ph_strategy = strategy,
                                  ph_base64Salt = encSalt, ph_base64Hash = encHash\<rparr>)))"

record Hasher =
  h_generateSalt :: "saltFunc option"
  h_computeHash :: "hashFunc option"
  h_strategy :: string

definition newHasher :: "saltFunc option \<Rightarrow> hashFuncFactory option \<Rightarrow> string \<Rightarrow> Hasher outcome" where
  "newHasher generateSalt computeHashFactory strategy =
     (case computeHashFactory of
        None \<Rightarrow> Panic
      | Some factory \<Rightarrow>
         (case factory strategy of
            Failure err \<Rightarrow> Panic
          | Panic \<Rightarrow> Panic
          | Return computeHash \<Rightarrow>
             Return \<lparr>h_generateSalt = generateSalt, h_computeHash = computeHash,
                     h_strategy = strategy\<rparr>))"

definition computePasswordHash :: "lib \<Rightarrow> Hasher \<Rightarrow> string \<Rightarrow> passwordHash outcome" where
  "computePasswordHash L h password =
     (case h_generateSalt h of
        None \<Rightarrow> Panic
      | Some generateSalt \<Rightarrow>
         (case h_computeHash h of
            None \<Rightarrow> Panic
          | Some computeHash \<Rightarrow>
             (case generateSalt 32 of
                Failure err \<Rightarrow> Failure err
              | Panic \<Rightarrow> Panic
              | Return salt \<Rightarrow>
                 (let hash = computeHash (bytes_of_string password) salt
                  in Return \<lparr>ph_salt = salt, ph_hash = hash, ph_strategy = h_strategy h,
                             ph_base64Salt = b64std_encode L salt,
                             ph_base64Hash = b64std_encode L hash\<rparr>))))"

definition ComputeHash :: "lib \<Rightarrow> Hasher \<Rightarrow> string \<Rightarrow> string outcome" where
  "ComputeHash L h password =
     (case computePasswordHash L h password of
        Failure err \<Rightarrow> Failure err
      | Panic \<Rightarrow> Panic
      | Return pwdh \<Rightarrow> Return (passwordHash_String pwdh))"

definition NewHasher :: "lib \<Rightarrow> Hasher outcome" where
  "NewHasher L = newHasher (Some (GenerateBytes L)) (Some (createPasswordHashingStrategy L)) defaultStrategy"

record pwd_Validator =
  pv_parseHash :: "parseHashFunc option"
  pv_computeHashFactory :: "hashFuncFactory option"
  pv_defaultStrategy :: string

definition newValidator :: "parseHashFunc option \<Rightarrow> hashFuncFactory option \<Rightarrow> string \<Rightarrow> pwd_Validator" where
  "newValidator parseHash computeHashFactory defaultStrategy' =
     \<lparr>pv_parseHash = parseHash, pv_computeHashFactory = computeHashFactory,
      pv_defaultStrategy = defaultStrategy'\<rparr>"

definition validatePassword :: "pwd_Validator \<Rightarrow> string \<Rightarrow> passwordHash option \<Rightarrow> (bool \<times> bool) outcome" where
  "validatePassword v p pwdh =
     (case pv_computeHashFactory v of
        None \<Rightarrow> Panic
      | Some computeHashFactory \<Rightarrow>
         (case pwdh of
            None \<Rightarrow> Return (False, False)
          | Some ph \<Rightarrow>
             if p = [] then Return (False, False)
             else
               (case computeHashFactory (ph_strategy ph) of
                  Failure err \<Rightarrow> Return (False, False)
                | Panic \<Rightarrow> Panic
                | Return None \<Rightarrow> Panic
                | Return (Some computeHash) \<Rightarrow>
                   (let computedHash = computeHash (bytes_of_string p) (ph_salt ph);
                        ok = Hashes (ph_hash ph) computedHash;
                        needsUpgrade = (ok \<and> ph_strategy ph \<noteq> pv_defaultStrategy v)
                    in Return (ok, needsUpgrade)))))"

definition ValidatePassword :: "pwd_Validator \<Rightarrow> string \<Rightarrow> string \<Rightarrow> (bool \<times> bool) outcome" where
  "ValidatePassword v password passwordHash =
     (case pv_parseHash v of
        None \<Rightarrow> Panic
      | Some parseHash \<Rightarrow>
         (case parseHash passwordHash of
            Failure err \<Rightarrow> Return (False, False)
          | Panic \<Rightarrow> Panic
          | Return pwdh \<Rightarrow> validatePassword v password pwdh))"

definition NewValidator :: "lib \<Rightarrow> pwd_Validator" where
  "NewValidator L = newValidator (Some (parsePasswordHash L)) (Some (createPasswordHashingStrategy L)) defaultStrategy"

section \<open>Contracts of the collaborators\<close>

text \<open>
  What the proofs below use of the collaborators.
  \<^item> A base64 encoding decodes back to the bytes encoded, and its alphabet has no dot.
  \<^item> CBC keeps the length; decrypting what was encrypted under the same key (of 16, 24 or
    32 bytes) and the same one-block initialisation vector gives back a plaintext of whole
    blocks.
  \<^item> No text of the form \<open>s.t\<close>, with \<open>t\<close> a formatted RFC 3339 timestamp, parses as RFC 3339
    (after a dot only the digits of a fraction and a zone can follow).
  \<^item> The layout \<open>time.RFC3339\<close> writes whole seconds and a four-digit year: the text of an
    instant from 1970 to the end of the year 9999 parses back to that instant with its
    nanoseconds dropped.
\<close>

definition base64_contract :: "(bytes \<Rightarrow> string) \<Rightarrow> (string \<Rightarrow> bytes option) \<Rightarrow> bool" where
  "base64_contract enc dec =
     ((\<forall>x. dec (enc x) = Some x) \<and> (\<forall>x. CHR ''.'' \<notin> set (enc x)))"

definition cbc_contract :: "lib \<Rightarrow> bool" where
  "cbc_contract L =
     ((\<forall>k iv p. length (cbc_encrypt L k iv p) = length p) \<and>
      (\<forall>k iv p. (length k = 16 \<or> length k = 24 \<or> length k = 32) \<and> length iv = 16 \<and> length p mod 16 = 0
         \<longrightarrow> cbc_decrypt L k iv (cbc_encrypt L k iv p) = p))"

definition rfc3339_contract :: "lib \<Rightarrow> bool" where
  "rfc3339_contract L = (\<forall>s t. parse_rfc3339 L (s @ ''.'' @ format_rfc3339 L t) = None)"

definition rfc3339_seconds_contract :: "lib \<Rightarrow> bool" where
  "rfc3339_seconds_contract L =
     (\<forall>t. 0 \<le> t \<and> t < 253402300800000000000
        \<longrightarrow> parse_rfc3339 L (format_rfc3339 L t) = Some (t - t mod 1000000000))"

section \<open>A small instance of the collaborators\<close>

text \<open>
  An executable stand-in for the collaborators, used only to evaluate the model on concrete
  inputs: bytes are written as two hexadecimal digits instead of base64, the ``cipher''
  and the ``MAC'' are exclusive-ors, an instant is formatted as one letter per whole second,
  and the key derivation concatenates. It meets the contracts above.
\<close>

definition hexdigits :: string where
  "hexdigits = ''0123456789abcdef''"

fun index_of :: "char \<Rightarrow> string \<Rightarrow> nat option" where
  "index_of c [] = None"
| "index_of c (x # xs) = (if c = x then Some 0 else map_option Suc (index_of c xs))"

definition hex_encode :: "bytes \<Rightarrow> string" where
  "hex_encode bs = concat (map (\<lambda>b. [hexdigits ! (unat b div 16), hexdigits ! (unat b mod 16)]) bs)"

fun hex_decode :: "string \<Rightarrow> bytes option" where
  "hex_decode [] = Some []"
| "hex_decode [c] = None"
| "hex_decode (c1 # c2 # rest) =
     (case (index_of c1 hexdigits, index_of c2 hexdigits, hex_decode rest) of
        (Some a, Some b, Some r) \<Rightarrow> Some (word_of_nat (a * 16 + b) # r)
      | _ \<Rightarrow> None)"

definition xor_all :: "bytes \<Rightarrow> byte" where
  "xor_all bs = fold (\<lambda>b acc. xor acc b) bs 0"

definition seconds_format :: "int \<Rightarrow> string" where
  "seconds_format t = replicate (nat (t div 1000000000)) (CHR ''s'')"

definition seconds_parse :: "string \<Rightarrow> int option" where
  "seconds_parse s =
     (if s = replicate (length s) (CHR ''s'') then Some (int (length s) * 1000000000) else None)"

definition sample_lib :: lib where
  "sample_lib =
     \<lparr>b64url_encode = hex_encode, b64url_decode = hex_decode,
      b64std_encode = hex_encode, b64std_decode = hex_decode,
      hmac_sha256 = (\<lambda>key msg. [xor_all key, xor_all msg]),
      cbc_encrypt = (\<lambda>key iv src. map (\<lambda>b. xor b (xor_all key)) src),
      cbc_decrypt = (\<lambda>key iv src. map (\<lambda>b. xor b (xor_all key)) src),
      rand_fail = False,
      rand_stream = (\<lambda>i. word_of_nat (i + 1)),
      format_rfc3339 = seconds_format,
      parse_rfc3339 = seconds_parse,
      pbkdf2_key = (\<lambda>password salt iter keyLen. password @ salt),
      base62_decode = (\<lambda>s. int (length s))\<rparr>"

definition sample_generator :: Generator where
  "sample_generator = \<lparr>g_now = 2000000005, g_encryptionKey = 7 # replicate 15 0, g_signingKey = [1, 2, 4]\<rparr>"

definition sample_validator :: "int \<Rightarrow> Validator" where
  "sample_validator now = \<lparr>v_now = now, v_encryptionKey = 7 # replicate 15 0, v_signingKey = [1, 2, 4]\<rparr>"

section \<open>Properties of package pkcs7\<close>

lemma padding_ok_replicate: "padding_ok (replicate n b) b"
  by (induction n) auto

lemma Pad_Return:
  assumes "1 \<le> n"
  shows "Pad data n = Return (data @ replicate (nat (n - int (length data) mod n)) (word_of_int (n - int (length data) mod n)))"
proof -
  have "int (length data) mod n < n" using assms by simp
  then have "n - int (length data) mod n \<noteq> 0" by simp
  then show ?thesis using assms by (simp add: Pad_def Let_def)
qed

lemma padLen_bounds:
  assumes "1 \<le> n"
  shows "1 \<le> n - int (length data) mod n" and "n - int (length data) mod n \<le> n"
proof -
  have "0 \<le> int (length data) mod n" "int (length data) mod n < n" using assms by simp_all
  then show "1 \<le> n - int (length data) mod n" and "n - int (length data) mod n \<le> n" by simp_all
qed

lemma padded_length_mod:
  assumes "1 \<le> (n::int)"
  shows "(l + (n - l mod n)) mod n = 0"
proof -
  have "l + (n - l mod n) = (l - l mod n) + n" by simp
  also have "\<dots> mod n = (l - l mod n) mod n" by simp
  also have "\<dots> = 0" by (simp add: mod_diff_right_eq)
  finally show ?thesis .
qed

lemma Unpad_eq:
  assumes "1 \<le> n" "int (length p) mod n = 0" "p \<noteq> []" "unat (last p) \<le> length p"
    and "padding_ok (drop (length p - unat (last p)) p) (last p)"
  shows "Unpad p n = Return (take (length p - unat (last p)) p)"
  using assms by (simp add: Unpad_def Let_def)

lemma Unpad_padded:
  assumes n: "1 \<le> n" and k: "1 \<le> k" and len: "(int (length data) + k) mod n = 0"
  shows "Unpad (data @ replicate (nat k) (word_of_int k)) n =
           Return (data @ replicate (nat k - unat (word_of_int k :: byte)) (word_of_int k))"
proof -
  let ?b = "word_of_int k :: byte"
  let ?p = "data @ replicate (nat k) ?b"
  have ub: "int (unat ?b) = k mod 256"
    by (simp add: unat_eq_nat_uint uint_word_of_int take_bit_eq_mod)
  have "k mod 256 \<le> k" using k by (simp add: zmod_le_nonneg_dividend)
  then have le: "unat ?b \<le> nat k" using ub by linarith
  have nk: "0 < nat k" using k by simp
  have lst: "last ?p = ?b" using nk by simp
  have a2: "int (length ?p) mod n = 0" using len k by simp
  have a3: "?p \<noteq> []" using nk by simp
  have a4: "unat (last ?p) \<le> length ?p" unfolding lst using le by simp
  have dr: "drop (length ?p - unat ?b) ?p = replicate (unat ?b) ?b"
    using le by simp
  have a5: "padding_ok (drop (length ?p - unat (last ?p)) ?p) (last ?p)"
    unfolding lst dr by (rule padding_ok_replicate)
  have tk: "take (length ?p - unat ?b) ?p = data @ replicate (nat k - unat ?b) ?b"
    using le by simp
  show ?thesis
    using Unpad_eq[OF n a2 a3 a4 a5] unfolding lst tk .
qed

lemma unat_byte_of_int: "0 \<le> k \<Longrightarrow> k \<le> 255 \<Longrightarrow> unat (word_of_int k :: byte) = nat k"
  by (simp add: unat_eq_nat_uint uint_word_of_int take_bit_int_eq_self)

lemma unat_byte_of_int_less: "256 \<le> k \<Longrightarrow> unat (word_of_int k :: byte) < nat k"
proof -
  assume k: "256 \<le> k"
  have "int (unat (word_of_int k :: byte)) = k mod 256"
    by (simp add: unat_eq_nat_uint uint_word_of_int take_bit_eq_mod)
  moreover have "k mod 256 < 256" by simp
  ultimately show ?thesis using k by linarith
qed

lemma Unpad_Pad_iff:
  assumes n: "1 \<le> n"
  shows "(\<exists>p. Pad data n = Return p \<and> Unpad p n = Return data) \<longleftrightarrow> n - int (length data) mod n \<le> 255"
proof -
  define k where "k = n - int (length data) mod n"
  have k: "1 \<le> k" "k \<le> n" using padLen_bounds[OF n, of data] by (simp_all add: k_def)
  have len: "(int (length data) + k) mod n = 0" unfolding k_def by (rule padded_length_mod[OF n])
  have P: "Pad data n = Return (data @ replicate (nat k) (word_of_int k))"
    using Pad_Return[OF n] by (simp add: k_def)
  have U: "Unpad (data @ replicate (nat k) (word_of_int k)) n =
           Return (data @ replicate (nat k - unat (word_of_int k :: byte)) (word_of_int k))"
    by (rule Unpad_padded[OF n k(1) len])
  show ?thesis
  proof (cases "k \<le> 255")
    case True
    then have "unat (word_of_int k :: byte) = nat k" using k by (simp add: unat_byte_of_int)
    then show ?thesis using True P U by (simp add: k_def)
  next
    case False
    then have "unat (word_of_int k :: byte) < nat k" by (simp add: unat_byte_of_int_less)
    then show ?thesis using False P U by (simp add: k_def)
  qed
qed

lemma Pad_aligned:
  assumes n: "1 \<le> n" and al: "int (length data) mod n = 0"
  shows "Pad data n = Return (data @ replicate (nat n) (word_of_int n))"
  using Pad_Return[OF n, of data] al by simp

text \<open>
  Claim C7 (as amended). For every block size \<open>n \<ge> 1\<close> and every data,
  \<open>Unpad (Pad data n) n\<close> returns exactly \<open>data\<close> if and only if the padding length
  \<open>n - len(data) mod n\<close> fits a byte (is at most 255); in particular for every block size
  from 1 to 255. For every \<open>n \<ge> 1\<close>, data whose length is a multiple of \<open>n\<close> receives
  \<open>n\<close> padding bytes, each \<open>byte(n)\<close>.
\<close>

theorem pkcs7_round_trip:
  assumes "1 \<le> n"
  shows "(n \<le> 255 \<longrightarrow> (\<exists>p. Pad data n = Return p \<and> Unpad p n = Return data))
       \<and> ((\<exists>p. Pad data n = Return p \<and> Unpad p n = Return data) \<longleftrightarrow> n - int (length data) mod n \<le> 255)
       \<and> (int (length data) mod n = 0 \<longrightarrow> Pad data n = Return (data @ replicate (nat n) (word_of_int n)))"
proof -
  have "n \<le> 255 \<Longrightarrow> n - int (length data) mod n \<le> 255"
    using padLen_bounds(2)[OF assms, of data] by linarith
  then show ?thesis
    using Unpad_Pad_iff[OF assms, of data] Pad_aligned[OF assms, of data] by blast
qed

theorem pkcs7_round_trip_witness:
  "(1::int) \<le> 4 \<and> (4::int) \<le> 255
   \<and> (\<exists>p. Pad [1, 2, 3] 4 = Return p \<and> Unpad p 4 = Return [1, 2, 3])
   \<and> int (length [9, 8, 7, 6 :: byte]) mod 4 = 0
   \<and> Pad [9, 8, 7, 6] 4 = Return [9, 8, 7, 6, 4, 4, 4, 4]"
proof -
  have h: "(1::int) \<le> 4" by simp
  show ?thesis
    using pkcs7_round_trip[OF h, of "[1, 2, 3]"] pkcs7_round_trip[OF h, of "[9, 8, 7, 6]"]
    by (simp add: numeral_eq_Suc)
qed

text \<open>
  Claim C7 as stated fails at block size 256: the empty data is padded with 256 bytes of
  value \<open>byte(256) = 0\<close>, and \<open>Unpad\<close> reads a padding length of 0 and returns all 256
  bytes.
\<close>

theorem pkcs7_round_trip_counterexample:
  "Pad [] 256 = Return (replicate 256 0) \<and> Unpad (replicate 256 0) 256 = Return (replicate 256 0)
   \<and> replicate 256 (0::byte) \<noteq> []"
  by (simp add: Pad_def Unpad_def)

text \<open>
  Claim C8 says that \<open>Unpad\<close> returns an error whenever the final byte does not declare a
  padding length in \<open>[1, n]\<close> that the trailing bytes repeat. The code does not check the
  declared length: on an input of a whole number of blocks, a final byte larger than the
  input's length makes the slice expression panic, and a final byte 0 makes \<open>Unpad\<close>
  return the input unchanged.
\<close>

theorem Unpad_padLen_unchecked:
  assumes "1 \<le> n" "int (length data) mod n = 0" "data \<noteq> []"
  shows "(length data < unat (last data) \<longrightarrow> Unpad data n = Panic)
       \<and> (last data = 0 \<longrightarrow> Unpad data n = Return data)"
  using assms by (simp add: Unpad_def Let_def)

theorem Unpad_padLen_unchecked_witness:
  "Unpad (replicate 16 17) 16 = Panic \<and> Unpad (replicate 16 0) 16 = Return (replicate 16 0)"
  using Unpad_padLen_unchecked[of 16 "replicate 16 17"] Unpad_padLen_unchecked[of 16 "replicate 16 0"]
  by simp

section \<open>Strings, comparison and encryption\<close>

lemma string_of_bytes_of_string: "string_of_bytes (bytes_of_string s) = s"
proof -
  have "char_of (unat (of_char c :: byte)) = c" for c
  proof -
    have "(of_char c :: byte) = word_of_nat (of_char c)"
      by (simp add: of_nat_of_char)
    then have "unat (of_char c :: byte) = of_char c mod 2 ^ 8"
      by (simp only: unat_of_nat) simp
    then have "unat (of_char c :: byte) = of_char c" by simp
    then show ?thesis by simp
  qed
  then show ?thesis by (simp add: string_of_bytes_def bytes_of_string_def o_def)
qed

lemma cut_None: "c \<notin> set s \<Longrightarrow> cut c s = None"
  by (induction s) auto

lemma cut_Some: "c \<notin> set a \<Longrightarrow> cut c (a @ c # rest) = Some (a, rest)"
  by (induction a) auto

lemma cut_SomeD: "cut c s = Some (a, rest) \<Longrightarrow> s = a @ c # rest \<and> c \<notin> set a"
  by (induction s arbitrary: a) (auto split: if_splits option.splits)

lemma cut_mem: "c \<in> set s \<Longrightarrow> \<exists>a rest. cut c s = Some (a, rest)"
  by (induction s) (auto split: option.splits)

lemma Hashes_iff: "Hashes a b \<longleftrightarrow> a = b"
proof -
  have "length a = length b \<Longrightarrow> foldl (\<lambda>equal (x, y). equal \<and> x = y) e (zip a b) \<longleftrightarrow> e \<and> a = b" for e
    by (induction a b arbitrary: e rule: list_induct2) auto
  then show ?thesis by (auto simp: Hashes_def)
qed

lemma SplitN2: "CHR ''.'' \<notin> set a \<Longrightarrow> SplitN (a @ CHR ''.'' # b) (CHR ''.'') 2 = [a, b]"
  by (simp add: numeral_2_eq_2 cut_Some)

lemma SplitN2_nodot: "CHR ''.'' \<notin> set s \<Longrightarrow> SplitN s (CHR ''.'') 2 = [s]"
  by (simp add: numeral_2_eq_2 cut_None)

lemma SplitN3:
  "CHR ''.'' \<notin> set a \<Longrightarrow> CHR ''.'' \<notin> set b \<Longrightarrow> SplitN (a @ CHR ''.'' # b @ CHR ''.'' # c) (CHR ''.'') 3 = [a, b, c]"
  by (simp add: numeral_3_eq_3 cut_Some)

lemma padded16:
  fixes plain :: bytes
  defines "k \<equiv> nat (16 - int (length plain) mod 16)"
  shows "Pad plain 16 = Return (plain @ replicate k (word_of_nat k))"
    and "(length plain + k) mod 16 = 0"
    and "Unpad (plain @ replicate k (word_of_nat k)) 16 = Return plain"
proof -
  define z where "z = 16 - int (length plain) mod 16"
  have z: "1 \<le> z" "z \<le> 16" using padLen_bounds[of 16 plain] by (simp_all add: z_def)
  have kz: "k = nat z" by (simp add: k_def z_def)
  have w: "(word_of_int z :: byte) = word_of_nat k" using z by (simp add: kz)
  have P: "Pad plain 16 = Return (plain @ replicate (nat z) (word_of_int z))"
    using Pad_Return[of 16 plain] by (simp add: z_def)
  show P': "Pad plain 16 = Return (plain @ replicate k (word_of_nat k))"
    using P by (simp add: w kz)
  have "(int (length plain) + z) mod 16 = 0" unfolding z_def by (rule padded_length_mod) simp
  then have "int ((length plain + k) mod 16) = 0" using z by (simp add: zmod_int kz)
  then show "(length plain + k) mod 16 = 0" by simp
  have "\<exists>p. Pad plain 16 = Return p \<and> Unpad p 16 = Return plain"
    using Unpad_Pad_iff[of 16 plain] z by (simp add: z_def)
  then show "Unpad (plain @ replicate k (word_of_nat k)) 16 = Return plain" using P' by simp
qed

lemma Encrypt_Decrypt:
  assumes cbc: "cbc_contract L" and rnd: "\<not> rand_fail L"
    and key: "length key = 16 \<or> length key = 24 \<or> length key = 32"
  shows "\<exists>c. Encrypt L key plain = Return c \<and> Decrypt L key c = Return plain"
proof -
  define k where "k = nat (16 - int (length plain) mod 16)"
  have P: "Pad plain 16 = Return (plain @ replicate k (word_of_nat k))"
    and m: "(length plain + k) mod 16 = 0"
    and U: "Unpad (plain @ replicate k (word_of_nat k)) 16 = Return plain"
    unfolding k_def by (rule padded16)+
  let ?pp = "plain @ replicate k (word_of_nat k :: byte)"
  let ?iv = "map (rand_stream L) [0..<16]"
  let ?enc = "cbc_encrypt L key ?iv ?pp"
  have lenc: "length ?enc = length ?pp" using cbc unfolding cbc_contract_def by blast
  have liv: "length ?iv = 16" by simp
  have lpp: "length ?pp mod 16 = 0" using m by simp
  have "\<forall>k iv p. (length k = 16 \<or> length k = 24 \<or> length k = 32) \<and> length iv = 16 \<and> length p mod 16 = 0
         \<longrightarrow> cbc_decrypt L k iv (cbc_encrypt L k iv p) = p"
    using cbc unfolding cbc_contract_def by (rule conjunct2)
  then have dec: "cbc_decrypt L key ?iv ?enc = ?pp"
    using key liv lpp by (elim allE[of _ key] allE[of _ "?iv"] allE[of _ "?pp"] impE) (intro conjI, assumption+)
  have P': "Pad plain (int BlockSize) = Return ?pp" using P by (simp add: BlockSize_def)
  have U': "Unpad ?pp (int BlockSize) = Return plain" using U by (simp add: BlockSize_def)
  have G: "GenerateBytes L (int BlockSize) = Return ?iv"
    using rnd by (simp add: GenerateBytes_def BlockSize_def)
  have N: "NewCipher key = Return key" using key by (auto simp: NewCipher_def)
  have C1: "CryptBlocks (cbc_encrypt L) key ?iv (length ?pp) ?pp = Return ?enc"
    using m by (simp add: CryptBlocks_def BlockSize_def)
  have C2: "CryptBlocks (cbc_decrypt L) key ?iv (length ?enc) ?enc = Return ?pp"
    using m lenc dec by (simp add: CryptBlocks_def BlockSize_def)
  have kk: "\<not> (length key \<noteq> 16 \<and> length key \<noteq> 24 \<and> length key \<noteq> 32)" using key by blast
  have E: "Encrypt L key plain = Return (?iv @ ?enc)"
    unfolding Encrypt_def Let_def by (simp only: kk if_False P' G N C1 outcome.case)
  have tk: "take BlockSize (?iv @ ?enc) = ?iv" by (simp add: BlockSize_def)
  have dr: "drop BlockSize (?iv @ ?enc) = ?enc" by (simp add: BlockSize_def)
  have ln: "\<not> length (?iv @ ?enc) < BlockSize" by (simp add: BlockSize_def)
  have D: "Decrypt L key (?iv @ ?enc) = Return plain"
    unfolding Decrypt_def Let_def by (simp only: kk if_False ln tk dr N C2 U' outcome.case)
  show ?thesis using E D by blast
qed

section \<open>The two token validators on a well-formed wire token\<close>

lemma wire_facts:
  assumes b64: "base64_contract (b64url_encode L) (b64url_decode L)"
  shows "b64url_encode L sg @ ''.'' @ b64url_encode L c \<noteq> []"
    and "SplitN (b64url_encode L sg @ CHR ''.'' # b64url_encode L c) (CHR ''.'') 2 = [b64url_encode L sg, b64url_encode L c]"
    and "b64url_decode L (b64url_encode L x) = Some x"
proof -
  have nd: "CHR ''.'' \<notin> set (b64url_encode L sg)" using b64 unfolding base64_contract_def by blast
  show "b64url_encode L sg @ ''.'' @ b64url_encode L c \<noteq> []" by simp
  show "SplitN (b64url_encode L sg @ CHR ''.'' # b64url_encode L c) (CHR ''.'') 2 = [b64url_encode L sg, b64url_encode L c]"
    by (rule SplitN2[OF nd])
  show "b64url_decode L (b64url_encode L x) = Some x" using b64 unfolding base64_contract_def by blast
qed

lemma Validator_Validate_wire:
  assumes b64: "base64_contract (b64url_encode L) (b64url_decode L)"
    and D: "Decrypt L (v_encryptionKey v) c = Return plain"
    and S: "SplitN (string_of_bytes plain) (CHR ''.'') 3 = [k, ep, e]"
  shows "Validator_Validate L v kind
           (b64url_encode L (ComputeSHA256 L (v_signingKey v) c) @ ''.'' @ b64url_encode L c) =
         (if kind \<noteq> k then Failure KindMismatch
          else case parse_rfc3339 L e of
                 None \<Rightarrow> Failure InvalidExpiry
               | Some expiry \<Rightarrow>
                  if v_now v > expiry then Failure TokenExpired
                  else (case b64url_decode L ep of
                          None \<Rightarrow> Failure PlaintextNotBase64
                        | Some d \<Rightarrow> Return d))"
proof -
  have V: "ValidateSHA256 L (v_signingKey v) c (ComputeSHA256 L (v_signingKey v) c)"
    by (simp add: ValidateSHA256_def Validate_def ComputeSHA256_def Hashes_iff)
  show ?thesis
    unfolding Validator_Validate_def Let_def
    by (simp add: wire_facts[OF b64] V D S cong: option.case_cong if_cong)
qed

lemma validator_Validate_wire:
  assumes b64: "base64_contract (b64url_encode L) (b64url_decode L)"
    and D: "Decrypt L (v_encryptionKey v) c = Return plain"
    and S: "SplitN (string_of_bytes plain) (CHR ''.'') 3 = [k, ep, e]"
  shows "validator_Validate L v kind
           (b64url_encode L (ComputeSHA256 L (v_signingKey v) c) @ ''.'' @ b64url_encode L c) =
         (if kind \<noteq> k then Failure errToken
          else case parse_rfc3339 L e of
                 None \<Rightarrow> Failure errToken
               | Some expiry \<Rightarrow>
                  if v_now v > expiry then Failure errToken
                  else (case b64url_decode L ep of
                          None \<Rightarrow> Failure errToken
                        | Some d \<Rightarrow> Return d))"
proof -
  have V: "ValidateSHA256 L (v_signingKey v) c (ComputeSHA256 L (v_signingKey v) c)"
    by (simp add: ValidateSHA256_def Validate_def ComputeSHA256_def Hashes_iff)
  show ?thesis
    unfolding validator_Validate_def Let_def
    by (simp add: wire_facts[OF b64] V D S cong: option.case_cong if_cong)
qed

text \<open>What \<open>Generate\<close> returns, and how a record with three or more dots is split.\<close>

lemma Generate_wire:
  assumes cbc: "cbc_contract L" and rnd: "\<not> rand_fail L"
    and key: "length (g_encryptionKey g) = 16 \<or> length (g_encryptionKey g) = 24 \<or> length (g_encryptionKey g) = 32"
  shows "\<exists>c. Generate L g kind data ttl =
               Return (b64url_encode L (ComputeSHA256 L (g_signingKey g) c) @ ''.'' @ b64url_encode L c)
           \<and> Decrypt L (g_encryptionKey g) c =
               Return (bytes_of_string (kind @ ''.'' @ b64url_encode L data @ ''.'' @ format_rfc3339 L (g_now g + ttl)))"
proof -
  let ?plain = "bytes_of_string (kind @ ''.'' @ b64url_encode L data @ ''.'' @ format_rfc3339 L (g_now g + ttl))"
  obtain c where E: "Encrypt L (g_encryptionKey g) ?plain = Return c"
    and D: "Decrypt L (g_encryptionKey g) c = Return ?plain"
    using Encrypt_Decrypt[OF cbc rnd key, of ?plain] by (elim exE conjE)
  have "Generate L g kind data ttl =
          Return (b64url_encode L (ComputeSHA256 L (g_signingKey g) c) @ ''.'' @ b64url_encode L c)"
    unfolding Generate_def Let_def by (simp only: E outcome.case)
  then show ?thesis using D by (intro exI[of _ c] conjI)
qed

lemma SplitN3_record:
  assumes ep: "CHR ''.'' \<notin> set ep"
  shows "\<exists>p0 p1 p2. SplitN (B @ CHR ''.'' # ep @ CHR ''.'' # f) (CHR ''.'') 3 = [p0, p1, p2]
           \<and> ((CHR ''.'' \<notin> set B \<and> p0 = B \<and> p1 = ep \<and> p2 = f)
              \<or> (CHR ''.'' \<in> set B \<and> p0 \<noteq> B \<and> (\<exists>s. p2 = s @ CHR ''.'' # f)))"
proof (cases "CHR ''.'' \<in> set B")
  case False
  then show ?thesis using SplitN3[OF False ep, of f] by simp
next
  case True
  then obtain a r where c: "cut (CHR ''.'') B = Some (a, r)" using cut_mem by blast
  then have B: "B = a @ CHR ''.'' # r" and a: "CHR ''.'' \<notin> set a" using cut_SomeD by blast+
  have ne: "a \<noteq> B" using a True by blast
  let ?rest = "r @ CHR ''.'' # ep @ CHR ''.'' # f"
  have c1: "cut (CHR ''.'') (B @ CHR ''.'' # ep @ CHR ''.'' # f) = Some (a, ?rest)"
    using cut_Some[OF a, of ?rest] by (simp add: B)
  show ?thesis
  proof (cases "CHR ''.'' \<in> set r")
    case False
    have "SplitN ?rest (CHR ''.'') 2 = [r, ep @ CHR ''.'' # f]" by (rule SplitN2[OF False])
    then have "SplitN (B @ CHR ''.'' # ep @ CHR ''.'' # f) (CHR ''.'') 3 = [a, r, ep @ CHR ''.'' # f]"
      using c1 by (simp add: numeral_3_eq_3 numeral_2_eq_2)
    then show ?thesis using True ne by blast
  next
    case rdot: True
    then obtain r1 r2 where c2: "cut (CHR ''.'') r = Some (r1, r2)" using cut_mem by blast
    then have r: "r = r1 @ CHR ''.'' # r2" and r1: "CHR ''.'' \<notin> set r1" using cut_SomeD by blast+
    have "SplitN ?rest (CHR ''.'') 2 = [r1, r2 @ CHR ''.'' # ep @ CHR ''.'' # f]"
      using SplitN2[OF r1, of "r2 @ CHR ''.'' # ep @ CHR ''.'' # f"] by (simp add: r)
    then have "SplitN (B @ CHR ''.'' # ep @ CHR ''.'' # f) (CHR ''.'') 3 = [a, r1, (r2 @ CHR ''.'' # ep) @ CHR ''.'' # f]"
      using c1 by (simp add: numeral_3_eq_3 numeral_2_eq_2)
    then show ?thesis using True ne by blast
  qed
qed

section \<open>The sample instance meets the contracts\<close>

lemma hexdigits_all:
  "list_all (\<lambda>n. index_of (hexdigits ! n) hexdigits = Some n \<and> hexdigits ! n \<noteq> CHR ''.'') [0..<16]"
  by code_simp

lemma index_of_hexdigits: "n < 16 \<Longrightarrow> index_of (hexdigits ! n) hexdigits = Some n"
  using hexdigits_all by (simp add: list_all_iff)

lemma hexdigits_nodot: "n < 16 \<Longrightarrow> hexdigits ! n \<noteq> CHR ''.''"
  using hexdigits_all by (simp add: list_all_iff)

lemma byte_nibbles: "(word_of_nat (unat b div 16 * 16 + unat b mod 16) :: byte) = b"
  by simp

lemma unat_byte_div16: "unat (b :: byte) div 16 < 16"
proof -
  have "unat b < 256" using unsigned_less[of b] by simp
  then show ?thesis by simp
qed

lemma hex_decode_encode: "hex_decode (hex_encode bs) = Some bs"
  by (induction bs) (simp_all add: hex_encode_def index_of_hexdigits unat_byte_div16)

lemma hex_encode_nodot: "CHR ''.'' \<notin> set (hex_encode bs)"
proof (induction bs)
  case Nil
  show ?case by (simp add: hex_encode_def)
next
  case (Cons b bs)
  have "hexdigits ! (unat b div 16) \<noteq> CHR ''.''" "hexdigits ! (unat b mod 16) \<noteq> CHR ''.''"
    by (simp_all add: hexdigits_nodot unat_byte_div16)
  then show ?case using Cons by (auto simp: hex_encode_def)
qed

lemma sample_b64: "base64_contract hex_encode hex_decode"
  by (simp add: base64_contract_def hex_decode_encode hex_encode_nodot)

lemma xor_twice: "xor (xor (x :: byte) k) k = x"
  by (simp add: xor.assoc)

lemma sample_cbc: "cbc_contract sample_lib"
  by (simp add: cbc_contract_def sample_lib_def o_def xor_twice)

lemma seconds_parse_dot: "seconds_parse (s @ CHR ''.'' # t) = None"
proof -
  have "s @ CHR ''.'' # t \<noteq> replicate n (CHR ''s'')" for n
  proof
    assume "s @ CHR ''.'' # t = replicate n (CHR ''s'')"
    then have "CHR ''.'' \<in> set (replicate n (CHR ''s''))" by (metis in_set_conv_decomp)
    then show False by simp
  qed
  then show ?thesis unfolding seconds_parse_def by (simp only: if_False)
qed

lemma sample_rfc3339: "rfc3339_contract sample_lib"
  by (simp add: rfc3339_contract_def sample_lib_def seconds_parse_dot)

lemma seconds_parse_format:
  assumes "0 \<le> t"
  shows "seconds_parse (seconds_format t) = Some (t - t mod 1000000000)"
proof -
  have "0 \<le> t div 1000000000" using assms by simp
  then have "int (nat (t div 1000000000)) * 1000000000 = t div 1000000000 * 1000000000" by simp
  also have "\<dots> = t - t mod 1000000000" by (simp add: minus_mod_eq_div_mult)
  finally show ?thesis by (simp add: seconds_parse_def seconds_format_def)
qed

lemma sample_rfc3339_seconds: "rfc3339_seconds_contract sample_lib"
  unfolding rfc3339_seconds_contract_def
  by (intro allI impI) (simp add: sample_lib_def seconds_parse_format)

section \<open>Generated tokens\<close>

lemma generated_record:
  assumes cbc: "cbc_contract L" and rnd: "\<not> rand_fail L"
    and key: "length (g_encryptionKey g) = 16 \<or> length (g_encryptionKey g) = 24 \<or> length (g_encryptionKey g) = 32"
  shows "\<exists>c plain. Generate L g kind data ttl =
               Return (b64url_encode L (ComputeSHA256 L (g_signingKey g) c) @ ''.'' @ b64url_encode L c)
           \<and> Decrypt L (g_encryptionKey g) c = Return plain
           \<and> string_of_bytes plain = kind @ CHR ''.'' # b64url_encode L data @ CHR ''.'' # format_rfc3339 L (g_now g + ttl)"
proof -
  obtain c where G: "Generate L g kind data ttl =
               Return (b64url_encode L (ComputeSHA256 L (g_signingKey g) c) @ ''.'' @ b64url_encode L c)"
    and D: "Decrypt L (g_encryptionKey g) c =
               Return (bytes_of_string (kind @ ''.'' @ b64url_encode L data @ ''.'' @ format_rfc3339 L (g_now g + ttl)))"
    using Generate_wire[OF cbc rnd key, of kind data ttl] by (elim exE conjE)
  have "string_of_bytes (bytes_of_string (kind @ ''.'' @ b64url_encode L data @ ''.'' @ format_rfc3339 L (g_now g + ttl)))
        = kind @ CHR ''.'' # b64url_encode L data @ CHR ''.'' # format_rfc3339 L (g_now g + ttl)"
    by (simp add: string_of_bytes_of_string)
  then show ?thesis using G D by blast
qed

lemma generated_token_verdict:
  assumes b64: "base64_contract (b64url_encode L) (b64url_decode L)"
    and cbc: "cbc_contract L" and rnd: "\<not> rand_fail L"
    and key: "length (g_encryptionKey g) = 16 \<or> length (g_encryptionKey g) = 24 \<or> length (g_encryptionKey g) = 32"
    and kind: "CHR ''.'' \<notin> set kind"
    and expiry: "parse_rfc3339 L (format_rfc3339 L (g_now g + ttl)) = Some expiry"
  shows "\<exists>token. Generate L g kind payload ttl = Return token
          \<and> (\<forall>v. v_encryptionKey v = g_encryptionKey g \<and> v_signingKey v = g_signingKey g \<longrightarrow>
                validator_Validate L v kind token = (if v_now v \<le> expiry then Return payload else Failure errToken)
              \<and> Validator_Validate L v kind token = (if v_now v \<le> expiry then Return payload else Failure TokenExpired))"
proof -
  obtain c plain where G: "Generate L g kind payload ttl =
               Return (b64url_encode L (ComputeSHA256 L (g_signingKey g) c) @ ''.'' @ b64url_encode L c)"
    and D: "Decrypt L (g_encryptionKey g) c = Return plain"
    and P: "string_of_bytes plain = kind @ CHR ''.'' # b64url_encode L payload @ CHR ''.'' # format_rfc3339 L (g_now g + ttl)"
    using generated_record[OF cbc rnd key, of kind payload ttl] by (elim exE conjE)
  have nd: "CHR ''.'' \<notin> set (b64url_encode L payload)" using b64 unfolding base64_contract_def by blast
  have dec: "b64url_decode L (b64url_encode L payload) = Some payload" using b64 unfolding base64_contract_def by blast
  have S: "SplitN (string_of_bytes plain) (CHR ''.'') 3 = [kind, b64url_encode L payload, format_rfc3339 L (g_now g + ttl)]"
    unfolding P by (rule SplitN3[OF kind nd])
  let ?token = "b64url_encode L (ComputeSHA256 L (g_signingKey g) c) @ ''.'' @ b64url_encode L c"
  have "validator_Validate L v kind ?token = (if v_now v \<le> expiry then Return payload else Failure errToken)
      \<and> Validator_Validate L v kind ?token = (if v_now v \<le> expiry then Return payload else Failure TokenExpired)"
    if k: "v_encryptionKey v = g_encryptionKey g" "v_signingKey v = g_signingKey g" for v
  proof -
    have D': "Decrypt L (v_encryptionKey v) c = Return plain" using D k by simp
    show ?thesis
      using validator_Validate_wire[OF b64 D' S, of kind] Validator_Validate_wire[OF b64 D' S, of kind]
      by (simp add: k expiry dec)
  qed
  then show ?thesis using G by blast
qed

lemma sample_hyps:
  "base64_contract (b64url_encode sample_lib) (b64url_decode sample_lib)"
  "base64_contract (b64std_encode sample_lib) (b64std_decode sample_lib)"
  "\<not> rand_fail sample_lib"
  "length (g_encryptionKey sample_generator) = 16 \<or> length (g_encryptionKey sample_generator) = 24 \<or> length (g_encryptionKey sample_generator) = 32"
  "v_encryptionKey (sample_validator now) = g_encryptionKey sample_generator"
  "v_signingKey (sample_validator now) = g_signingKey sample_generator"
  "parse_rfc3339 sample_lib (format_rfc3339 sample_lib (g_now sample_generator + 3000000000)) = Some 5000000000"
  by (simp_all add: sample_lib_def sample_b64 sample_generator_def sample_validator_def
      seconds_format_def seconds_parse_def)


section \<open>Properties of package token\<close>

lemma recorded_expiry:
  assumes rfc: "rfc3339_seconds_contract L"
    and lo: "0 \<le> t" and hi: "t < 253402300800000000000"
  shows "parse_rfc3339 L (format_rfc3339 L t) = Some (t - t mod 1000000000)"
proof -
  have "\<forall>t. 0 \<le> t \<and> t < 253402300800000000000
        \<longrightarrow> parse_rfc3339 L (format_rfc3339 L t) = Some (t - t mod 1000000000)"
    using rfc unfolding rfc3339_seconds_contract_def .
  then have "0 \<le> t \<and> t < 253402300800000000000
        \<longrightarrow> parse_rfc3339 L (format_rfc3339 L t) = Some (t - t mod 1000000000)"
    by (rule spec)
  then show ?thesis using lo hi by (elim impE) (intro conjI, assumption+)
qed

text \<open>
  Claim C1 (as amended). For every kind that contains no dot, every payload and every
  \<open>ttl > 0\<close>, with an encryption key of 16, 24 or 32 bytes and any signing key, and with
  \<open>now + ttl\<close> between 1970 and the end of the year 9999: \<open>Generate\<close> returns a token, and
  both validators, holding the same keys, return exactly the payload when their clock is
  not after \<open>now + ttl\<close> truncated to the whole second, which is the expiry that the token
  records; at any later clock reading they reject it. The collaborators are assumed to meet
  their contracts and the random source not to fail.
\<close>

theorem token_round_trip:
  assumes "base64_contract (b64url_encode L) (b64url_decode L)"
    and "cbc_contract L" and "rfc3339_seconds_contract L" and "\<not> rand_fail L"
    and "length (g_encryptionKey g) = 16 \<or> length (g_encryptionKey g) = 24 \<or> length (g_encryptionKey g) = 32"
    and "v_encryptionKey v = g_encryptionKey g" and "v_signingKey v = g_signingKey g"
    and "CHR ''.'' \<notin> set kind"
    and "0 < ttl"
    and "0 \<le> g_now g + ttl" and "g_now g + ttl < 253402300800000000000"
  shows "\<exists>token. Generate L g kind payload ttl = Return token
           \<and> (v_now v \<le> (g_now g + ttl) - (g_now g + ttl) mod 1000000000 \<longrightarrow>
                validator_Validate L v kind token = Return payload
                \<and> Validator_Validate L v kind token = Return payload)
           \<and> (v_now v > (g_now g + ttl) - (g_now g + ttl) mod 1000000000 \<longrightarrow>
                validator_Validate L v kind token = Failure errToken
                \<and> Validator_Validate L v kind token = Failure TokenExpired)"
proof -
  let ?e = "(g_now g + ttl) - (g_now g + ttl) mod 1000000000"
  have E: "parse_rfc3339 L (format_rfc3339 L (g_now g + ttl)) = Some ?e"
    by (rule recorded_expiry[OF assms(3) assms(10,11)])
  obtain token where G: "Generate L g kind payload ttl = Return token"
    and V: "\<forall>v. v_encryptionKey v = g_encryptionKey g \<and> v_signingKey v = g_signingKey g \<longrightarrow>
                validator_Validate L v kind token = (if v_now v \<le> ?e then Return payload else Failure errToken)
              \<and> Validator_Validate L v kind token = (if v_now v \<le> ?e then Return payload else Failure TokenExpired)"
    using generated_token_verdict[OF assms(1,2,4,5) assms(8) E, of payload] by (elim exE conjE)
  from V[rule_format, of v] assms(6,7) G show ?thesis by (intro exI[of _ token]) simp
qed

theorem token_round_trip_witness:
  "Generate sample_lib sample_generator ''k'' [1, 2] 3000000000 =
     Return ''070b.0102030405060708090a0b0c0d0e0f106c293736373529747474747403030303''
   \<and> g_now sample_generator + 3000000000 = 5000000005
   \<and> validator_Validate sample_lib (sample_validator 5000000000) ''k''
       ''070b.0102030405060708090a0b0c0d0e0f106c293736373529747474747403030303'' = Return [1, 2]
   \<and> Validator_Validate sample_lib (sample_validator 5000000000) ''k''
       ''070b.0102030405060708090a0b0c0d0e0f106c293736373529747474747403030303'' = Return [1, 2]"
proof -
  have G: "Generate sample_lib sample_generator ''k'' [1, 2] 3000000000 =
     Return ''070b.0102030405060708090a0b0c0d0e0f106c293736373529747474747403030303''"
    by code_simp
  have k: "CHR ''.'' \<notin> set ''k''" by simp
  have t: "(0::int) < 3000000000" by simp
  have n: "g_now sample_generator + 3000000000 = 5000000005" by (simp add: sample_generator_def)
  have r: "0 \<le> g_now sample_generator + 3000000000"
    "g_now sample_generator + 3000000000 < 253402300800000000000"
    by (simp_all add: sample_generator_def)
  from token_round_trip[where payload = "[1, 2]" and v = "sample_validator 5000000000",
      OF sample_hyps(1) sample_cbc sample_rfc3339_seconds sample_hyps(3,4,5,6) k t r]
  show ?thesis by (simp add: G n sample_validator_def)
qed

text \<open>
  Claim C1 as stated fails in two ways. For a kind with a dot, the record
  \<open>a.b.<payload>.<expiry>\<close> is split at its first two dots, so the validator reads the kind
  \<open>a\<close> and rejects the token minted for \<open>a.b\<close>. And the token records its expiry in whole
  seconds: a token generated at 2.000000005 s with a \<open>ttl\<close> of one nanosecond records the
  expiry 2 s and is rejected at the generator's own clock reading, which is before
  \<open>now + ttl\<close>.
\<close>

theorem token_round_trip_counterexample:
  "Generate sample_lib sample_generator ''a.b'' [1] 3000000000 =
     Return ''074f.0102030405060708090a0b0c0d0e0f1066296529373629747474747403030303''
   \<and> validator_Validate sample_lib (sample_validator 0) ''a.b''
       ''074f.0102030405060708090a0b0c0d0e0f1066296529373629747474747403030303'' = Failure errToken
   \<and> Validator_Validate sample_lib (sample_validator 0) ''a.b''
       ''074f.0102030405060708090a0b0c0d0e0f1066296529373629747474747403030303'' = Failure KindMismatch
   \<and> Generate sample_lib sample_generator ''k'' [1, 2] 1 =
     Return ''077f.0102030405060708090a0b0c0d0e0f106c293736373529747400000000000000''
   \<and> g_now sample_generator = 2000000005 \<and> g_now sample_generator \<le> g_now sample_generator + 1
   \<and> validator_Validate sample_lib (sample_validator 2000000005) ''k''
       ''077f.0102030405060708090a0b0c0d0e0f106c293736373529747400000000000000'' = Failure errToken
   \<and> Validator_Validate sample_lib (sample_validator 2000000005) ''k''
       ''077f.0102030405060708090a0b0c0d0e0f106c293736373529747400000000000000'' = Failure TokenExpired"
  by code_simp

lemma accepted_record:
  assumes "Validator_Validate L v kind token = Return d"
  shows "\<exists>sg c plain e. token \<noteq> []
          \<and> length (SplitN token (CHR ''.'') 2) = 2
          \<and> b64url_decode L (SplitN token (CHR ''.'') 2 ! 0) = Some sg
          \<and> b64url_decode L (SplitN token (CHR ''.'') 2 ! 1) = Some c
          \<and> ValidateSHA256 L (v_signingKey v) c sg
          \<and> Decrypt L (v_encryptionKey v) c = Return plain
          \<and> length (SplitN (string_of_bytes plain) (CHR ''.'') 3) = 3
          \<and> kind = SplitN (string_of_bytes plain) (CHR ''.'') 3 ! 0
          \<and> parse_rfc3339 L (SplitN (string_of_bytes plain) (CHR ''.'') 3 ! 2) = Some e
          \<and> v_now v \<le> e
          \<and> b64url_decode L (SplitN (string_of_bytes plain) (CHR ''.'') 3 ! 1) = Some d"
  using assms unfolding Validator_Validate_def Let_def
  by (simp split: if_splits option.splits outcome.splits)

lemma accepted_record_uniform:
  assumes "validator_Validate L v kind token = Return d"
  shows "\<exists>sg c plain e. token \<noteq> []
          \<and> length (SplitN token (CHR ''.'') 2) = 2
          \<and> b64url_decode L (SplitN token (CHR ''.'') 2 ! 0) = Some sg
          \<and> b64url_decode L (SplitN token (CHR ''.'') 2 ! 1) = Some c
          \<and> ValidateSHA256 L (v_signingKey v) c sg
          \<and> Decrypt L (v_encryptionKey v) c = Return plain
          \<and> length (SplitN (string_of_bytes plain) (CHR ''.'') 3) = 3
          \<and> kind = SplitN (string_of_bytes plain) (CHR ''.'') 3 ! 0
          \<and> parse_rfc3339 L (SplitN (string_of_bytes plain) (CHR ''.'') 3 ! 2) = Some e
          \<and> v_now v \<le> e
          \<and> b64url_decode L (SplitN (string_of_bytes plain) (CHR ''.'') 3 ! 1) = Some d"
  using assms unfolding validator_Validate_def Let_def
  by (simp split: if_splits option.splits outcome.splits)

lemma accepted_record':
  assumes "validator_Validate L v kind token = Return d"
  shows "Validator_Validate L v kind token = Return d"
proof -
  from accepted_record_uniform[OF assms] obtain sg c plain e where
      f1: "token \<noteq> []"
      and f2: "length (SplitN token (CHR ''.'') 2) = 2"
      and f3: "b64url_decode L (SplitN token (CHR ''.'') 2 ! 0) = Some sg"
      and f4: "b64url_decode L (SplitN token (CHR ''.'') 2 ! 1) = Some c"
      and f5: "ValidateSHA256 L (v_signingKey v) c sg"
      and f6: "Decrypt L (v_encryptionKey v) c = Return plain"
      and f7: "length (SplitN (string_of_bytes plain) (CHR ''.'') 3) = 3"
      and f8: "kind = SplitN (string_of_bytes plain) (CHR ''.'') 3 ! 0"
      and f9: "parse_rfc3339 L (SplitN (string_of_bytes plain) (CHR ''.'') 3 ! 2) = Some e"
      and f10: "v_now v \<le> e"
      and f11: "b64url_decode L (SplitN (string_of_bytes plain) (CHR ''.'') 3 ! 1) = Some d"
    by (elim exE conjE)
  show ?thesis
    unfolding Validator_Validate_def Let_def
    using f1 f2 f3 f4 f5 f6 f7 f8 f9 f10 f11 by simp
qed

lemma accepted_parts:
  assumes "Validator_Validate L (v\<lparr>v_now := seen\<rparr>) kind token = Return d"
  shows "\<exists>s1 s2 sg c plain ep et expiry.
           SplitN token (CHR ''.'') 2 = [s1, s2]
         \<and> b64url_decode L s1 = Some sg \<and> b64url_decode L s2 = Some c
         \<and> ValidateSHA256 L (v_signingKey v) c sg
         \<and> Decrypt L (v_encryptionKey v) c = Return plain
         \<and> SplitN (string_of_bytes plain) (CHR ''.'') 3 = [kind, ep, et]
         \<and> parse_rfc3339 L et = Some expiry \<and> b64url_decode L ep = Some d
         \<and> seen \<le> expiry"
proof -
  from accepted_record[OF assms] obtain sg c plain e where
      f2: "length (SplitN token (CHR ''.'') 2) = 2"
      and f3: "b64url_decode L (SplitN token (CHR ''.'') 2 ! 0) = Some sg"
      and f4: "b64url_decode L (SplitN token (CHR ''.'') 2 ! 1) = Some c"
      and f5: "ValidateSHA256 L (v_signingKey v) c sg"
      and f6: "Decrypt L (v_encryptionKey v) c = Return plain"
      and f7: "length (SplitN (string_of_bytes plain) (CHR ''.'') 3) = 3"
      and f8: "kind = SplitN (string_of_bytes plain) (CHR ''.'') 3 ! 0"
      and f9: "parse_rfc3339 L (SplitN (string_of_bytes plain) (CHR ''.'') 3 ! 2) = Some e"
      and f10: "seen \<le> e"
      and f11: "b64url_decode L (SplitN (string_of_bytes plain) (CHR ''.'') 3 ! 1) = Some d"
    by (simp, elim exE conjE)
  let ?P = "SplitN token (CHR ''.'') 2"
  let ?M = "SplitN (string_of_bytes plain) (CHR ''.'') 3"
  have P: "?P = [?P ! 0, ?P ! 1]"
    using f2 by (cases ?P; cases "tl ?P"; cases "tl (tl ?P)") auto
  have M: "?M = [kind, ?M ! 1, ?M ! 2]"
    using f7 f8 by (cases ?M; cases "tl ?M"; cases "tl (tl ?M)"; cases "tl (tl (tl ?M))") auto
  show ?thesis using P f3 f4 f5 f6 M f9 f11 f10 by blast
qed

lemma well_formed_verdict:
  assumes P: "SplitN token (CHR ''.'') 2 = [s1, s2]"
    and d1: "b64url_decode L s1 = Some sg" and d2: "b64url_decode L s2 = Some c"
    and sgn: "ValidateSHA256 L (v_signingKey v) c sg"
    and dec: "Decrypt L (v_encryptionKey v) c = Return plain"
    and M: "SplitN (string_of_bytes plain) (CHR ''.'') 3 = [kind, ep, et]"
    and e: "parse_rfc3339 L et = Some expiry" and d3: "b64url_decode L ep = Some d"
  shows "Validator_Validate L (v\<lparr>v_now := now\<rparr>) kind token =
           (if now > expiry then Failure TokenExpired else Return d)"
    and "validator_Validate L (v\<lparr>v_now := now\<rparr>) kind token =
           (if now > expiry then Failure errToken else Return d)"
proof -
  have ne: "token \<noteq> []" using P by (auto simp: numeral_2_eq_2)
  show "Validator_Validate L (v\<lparr>v_now := now\<rparr>) kind token =
           (if now > expiry then Failure TokenExpired else Return d)"
    unfolding Validator_Validate_def Let_def
    using ne P d1 d2 sgn dec M e d3 by simp
  show "validator_Validate L (v\<lparr>v_now := now\<rparr>) kind token =
           (if now > expiry then Failure errToken else Return d)"
    unfolding validator_Validate_def Let_def
    using ne P d1 d2 sgn dec M e d3 by simp
qed

lemma generated_expiry_boundary:
  assumes "base64_contract (b64url_encode L) (b64url_decode L)"
    and "cbc_contract L" and "\<not> rand_fail L"
    and "length (g_encryptionKey g) = 16 \<or> length (g_encryptionKey g) = 24 \<or> length (g_encryptionKey g) = 32"
    and "v_encryptionKey v = g_encryptionKey g" and "v_signingKey v = g_signingKey g"
    and "CHR ''.'' \<notin> set kind"
    and "parse_rfc3339 L (format_rfc3339 L (g_now g + ttl)) = Some expiry"
  shows "\<exists>token. Generate L g kind payload ttl = Return token
           \<and> validator_Validate L (v\<lparr>v_now := expiry\<rparr>) kind token = Return payload
           \<and> validator_Validate L (v\<lparr>v_now := expiry + 1000000000\<rparr>) kind token = Failure errToken
           \<and> (\<forall>now. validator_Validate L (v\<lparr>v_now := now\<rparr>) kind token =
                 (if now > expiry then Failure errToken else Return payload))
           \<and> (\<forall>now. Validator_Validate L (v\<lparr>v_now := now\<rparr>) kind token =
                 (if now > expiry then Failure TokenExpired else Return payload))"
proof -
  obtain token where G: "Generate L g kind payload ttl = Return token"
    and V: "\<forall>v. v_encryptionKey v = g_encryptionKey g \<and> v_signingKey v = g_signingKey g \<longrightarrow>
                validator_Validate L v kind token = (if v_now v \<le> expiry then Return payload else Failure errToken)
              \<and> Validator_Validate L v kind token = (if v_now v \<le> expiry then Return payload else Failure TokenExpired)"
    using generated_token_verdict[OF assms(1-4) assms(7,8), of payload] by (elim exE conjE)
  have A: "validator_Validate L (v\<lparr>v_now := now\<rparr>) kind token = (if now > expiry then Failure errToken else Return payload)"
    and B: "Validator_Validate L (v\<lparr>v_now := now\<rparr>) kind token = (if now > expiry then Failure TokenExpired else Return payload)" for now
    using V[rule_format, of "v\<lparr>v_now := now\<rparr>"] assms(5,6) by auto
  show ?thesis using G A B by (intro exI[of _ token]) simp
qed

text \<open>
  Claim C2. Call a token well-formed for a validator and a kind when it has the two
  parts signature and ciphertext, both base64, the signature is the HMAC of the
  ciphertext, the ciphertext decrypts to a record \<open>kind.payload.expiry\<close> of that kind, the
  expiry parses as RFC 3339 and the payload is base64. For every well-formed token, with
  \<open>expiry\<close> the instant that the RFC 3339 expiry of its decrypted record parses to, both
  validators accept the token when their clock reads exactly \<open>expiry\<close>, reject it one second
  later, and in general reject it if and only if the clock is strictly after \<open>expiry\<close>.
  Every token that a validator accepts at some clock reading is well-formed, and that
  reading is not after its expiry. A token generated for a kind without a dot is accepted
  at exactly the instant that the RFC 3339 text of \<open>now + ttl\<close> parses to, and rejected at
  every clock reading strictly after it.
\<close>

theorem expiry_boundary:
  "(SplitN token (CHR ''.'') 2 = [s1, s2]
      \<and> b64url_decode L s1 = Some sg \<and> b64url_decode L s2 = Some c
      \<and> ValidateSHA256 L (v_signingKey v) c sg
      \<and> Decrypt L (v_encryptionKey v) c = Return plain
      \<and> SplitN (string_of_bytes plain) (CHR ''.'') 3 = [kind, ep, et]
      \<and> parse_rfc3339 L et = Some expiry \<and> b64url_decode L ep = Some d \<longrightarrow>
        validator_Validate L (v\<lparr>v_now := expiry\<rparr>) kind token = Return d
      \<and> Validator_Validate L (v\<lparr>v_now := expiry\<rparr>) kind token = Return d
      \<and> validator_Validate L (v\<lparr>v_now := expiry + 1000000000\<rparr>) kind token = Failure errToken
      \<and> Validator_Validate L (v\<lparr>v_now := expiry + 1000000000\<rparr>) kind token = Failure TokenExpired
      \<and> (\<forall>now. validator_Validate L (v\<lparr>v_now := now\<rparr>) kind token =
             (if now > expiry then Failure errToken else Return d))
      \<and> (\<forall>now. Validator_Validate L (v\<lparr>v_now := now\<rparr>) kind token =
             (if now > expiry then Failure TokenExpired else Return d)))
   \<and> (Validator_Validate L (v\<lparr>v_now := seen\<rparr>) kind token = Return d
        \<or> validator_Validate L (v\<lparr>v_now := seen\<rparr>) kind token = Return d \<longrightarrow>
      (\<exists>s1 s2 sg c plain ep et expiry.
           SplitN token (CHR ''.'') 2 = [s1, s2]
         \<and> b64url_decode L s1 = Some sg \<and> b64url_decode L s2 = Some c
         \<and> ValidateSHA256 L (v_signingKey v) c sg
         \<and> Decrypt L (v_encryptionKey v) c = Return plain
         \<and> SplitN (string_of_bytes plain) (CHR ''.'') 3 = [kind, ep, et]
         \<and> parse_rfc3339 L et = Some expiry \<and> b64url_decode L ep = Some d
         \<and> seen \<le> expiry))
   \<and> (base64_contract (b64url_encode L) (b64url_decode L) \<and> cbc_contract L \<and> \<not> rand_fail L
       \<and> (length (g_encryptionKey g) = 16 \<or> length (g_encryptionKey g) = 24 \<or> length (g_encryptionKey g) = 32)
       \<and> v_encryptionKey v = g_encryptionKey g \<and> v_signingKey v = g_signingKey g
       \<and> CHR ''.'' \<notin> set kind
       \<and> parse_rfc3339 L (format_rfc3339 L (g_now g + ttl)) = Some e \<longrightarrow>
      (\<exists>generated. Generate L g kind payload ttl = Return generated
         \<and> validator_Validate L (v\<lparr>v_now := e\<rparr>) kind generated = Return payload
         \<and> validator_Validate L (v\<lparr>v_now := e + 1000000000\<rparr>) kind generated = Failure errToken
         \<and> (\<forall>now. validator_Validate L (v\<lparr>v_now := now\<rparr>) kind generated =
                (if now > e then Failure errToken else Return payload))
         \<and> (\<forall>now. Validator_Validate L (v\<lparr>v_now := now\<rparr>) kind generated =
                (if now > e then Failure TokenExpired else Return payload))))"
proof (intro conjI impI)
  assume w: "SplitN token (CHR ''.'') 2 = [s1, s2]
      \<and> b64url_decode L s1 = Some sg \<and> b64url_decode L s2 = Some c
      \<and> ValidateSHA256 L (v_signingKey v) c sg
      \<and> Decrypt L (v_encryptionKey v) c = Return plain
      \<and> SplitN (string_of_bytes plain) (CHR ''.'') 3 = [kind, ep, et]
      \<and> parse_rfc3339 L et = Some expiry \<and> b64url_decode L ep = Some d"
  then have A: "Validator_Validate L (v\<lparr>v_now := now\<rparr>) kind token =
           (if now > expiry then Failure TokenExpired else Return d)"
    and B: "validator_Validate L (v\<lparr>v_now := now\<rparr>) kind token =
           (if now > expiry then Failure errToken else Return d)" for now
    using well_formed_verdict[where L = L and v = v and token = token and kind = kind and now = now
        and ?s1.0 = s1 and ?s2.0 = s2 and sg = sg and c = c and plain = plain and ep = ep and et = et
        and expiry = expiry and d = d]
    by blast+
  show "validator_Validate L (v\<lparr>v_now := expiry\<rparr>) kind token = Return d" by (simp add: B)
  show "Validator_Validate L (v\<lparr>v_now := expiry\<rparr>) kind token = Return d" by (simp add: A)
  show "validator_Validate L (v\<lparr>v_now := expiry + 1000000000\<rparr>) kind token = Failure errToken"
    by (simp add: B)
  show "Validator_Validate L (v\<lparr>v_now := expiry + 1000000000\<rparr>) kind token = Failure TokenExpired"
    by (simp add: A)
  show "\<forall>now. validator_Validate L (v\<lparr>v_now := now\<rparr>) kind token =
             (if now > expiry then Failure errToken else Return d)" using B by blast
  show "\<forall>now. Validator_Validate L (v\<lparr>v_now := now\<rparr>) kind token =
             (if now > expiry then Failure TokenExpired else Return d)" using A by blast
next
  assume "Validator_Validate L (v\<lparr>v_now := seen\<rparr>) kind token = Return d
        \<or> validator_Validate L (v\<lparr>v_now := seen\<rparr>) kind token = Return d"
  then have "Validator_Validate L (v\<lparr>v_now := seen\<rparr>) kind token = Return d"
    using accepted_record' by blast
  then show "\<exists>s1 s2 sg c plain ep et expiry.
           SplitN token (CHR ''.'') 2 = [s1, s2]
         \<and> b64url_decode L s1 = Some sg \<and> b64url_decode L s2 = Some c
         \<and> ValidateSHA256 L (v_signingKey v) c sg
         \<and> Decrypt L (v_encryptionKey v) c = Return plain
         \<and> SplitN (string_of_bytes plain) (CHR ''.'') 3 = [kind, ep, et]
         \<and> parse_rfc3339 L et = Some expiry \<and> b64url_decode L ep = Some d
         \<and> seen \<le> expiry"
    by (rule accepted_parts)
next
  assume "base64_contract (b64url_encode L) (b64url_decode L) \<and> cbc_contract L \<and> \<not> rand_fail L
       \<and> (length (g_encryptionKey g) = 16 \<or> length (g_encryptionKey g) = 24 \<or> length (g_encryptionKey g) = 32)
       \<and> v_encryptionKey v = g_encryptionKey g \<and> v_signingKey v = g_signingKey g
       \<and> CHR ''.'' \<notin> set kind
       \<and> parse_rfc3339 L (format_rfc3339 L (g_now g + ttl)) = Some e"
  then show "\<exists>generated. Generate L g kind payload ttl = Return generated
         \<and> validator_Validate L (v\<lparr>v_now := e\<rparr>) kind generated = Return payload
         \<and> validator_Validate L (v\<lparr>v_now := e + 1000000000\<rparr>) kind generated = Failure errToken
         \<and> (\<forall>now. validator_Validate L (v\<lparr>v_now := now\<rparr>) kind generated =
                (if now > e then Failure errToken else Return payload))
         \<and> (\<forall>now. Validator_Validate L (v\<lparr>v_now := now\<rparr>) kind generated =
                (if now > e then Failure TokenExpired else Return payload))"
    using generated_expiry_boundary[where L = L and g = g and v = v and kind = kind and ttl = ttl
      and expiry = e and payload = payload]
    by blast
qed

theorem expiry_boundary_witness:
  "SplitN ''070b.0102030405060708090a0b0c0d0e0f106c293736373529747474747403030303'' (CHR ''.'') 2 =
     [''070b'', ''0102030405060708090a0b0c0d0e0f106c293736373529747474747403030303'']
   \<and> Decrypt sample_lib (7 # replicate 15 0)
       [1, 2, 3, 4, 5, 6, 7, 8, 9, 10, 11, 12, 13, 14, 15, 16, 108, 41, 55, 54,
        55, 53, 41, 116, 116, 116, 116, 116, 3, 3, 3, 3] = Return (bytes_of_string ''k.0102.sssss'')
   \<and> parse_rfc3339 sample_lib ''sssss'' = Some 5000000000
   \<and> validator_Validate sample_lib (sample_validator 5000000000) ''k''
       ''070b.0102030405060708090a0b0c0d0e0f106c293736373529747474747403030303'' = Return [1, 2]
   \<and> Validator_Validate sample_lib (sample_validator 5000000000) ''k''
       ''070b.0102030405060708090a0b0c0d0e0f106c293736373529747474747403030303'' = Return [1, 2]
   \<and> validator_Validate sample_lib (sample_validator 5000000001) ''k''
       ''070b.0102030405060708090a0b0c0d0e0f106c293736373529747474747403030303'' = Failure errToken
   \<and> validator_Validate sample_lib (sample_validator 6000000000) ''k''
       ''070b.0102030405060708090a0b0c0d0e0f106c293736373529747474747403030303'' = Failure errToken
   \<and> Validator_Validate sample_lib (sample_validator 6000000000) ''k''
       ''070b.0102030405060708090a0b0c0d0e0f106c293736373529747474747403030303'' = Failure TokenExpired
   \<and> (\<exists>et expiry. parse_rfc3339 sample_lib et = Some expiry \<and> (4000000000::int) \<le> expiry)
   \<and> (\<exists>generated. Generate sample_lib sample_generator ''k'' [1, 2] 3000000000 = Return generated
         \<and> validator_Validate sample_lib (sample_validator 5000000000) ''k'' generated = Return [1, 2]
         \<and> validator_Validate sample_lib (sample_validator 6000000000) ''k'' generated = Failure errToken)"
proof -
  let ?tok = "''070b.0102030405060708090a0b0c0d0e0f106c293736373529747474747403030303''"
  let ?c = "[1, 2, 3, 4, 5, 6, 7, 8, 9, 10, 11, 12, 13, 14, 15, 16, 108, 41, 55, 54,
        55, 53, 41, 116, 116, 116, 116, 116, 3, 3, 3, 3] :: bytes"
  have w1: "SplitN ?tok (CHR ''.'') 2 =
     [''070b'', ''0102030405060708090a0b0c0d0e0f106c293736373529747474747403030303'']"
    by code_simp
  have w2: "Decrypt sample_lib (7 # replicate 15 0) ?c = Return (bytes_of_string ''k.0102.sssss'')"
    by code_simp
  have w3: "parse_rfc3339 sample_lib ''sssss'' = Some 5000000000" by code_simp
  have w: "SplitN ?tok (CHR ''.'') 2 =
       [''070b'', ''0102030405060708090a0b0c0d0e0f106c293736373529747474747403030303'']
      \<and> b64url_decode sample_lib ''070b'' = Some [7, 11]
      \<and> b64url_decode sample_lib ''0102030405060708090a0b0c0d0e0f106c293736373529747474747403030303'' = Some ?c
      \<and> ValidateSHA256 sample_lib (v_signingKey (sample_validator 0)) ?c [7, 11]
      \<and> Decrypt sample_lib (v_encryptionKey (sample_validator 0)) ?c = Return (bytes_of_string ''k.0102.sssss'')
      \<and> SplitN (string_of_bytes (bytes_of_string ''k.0102.sssss'')) (CHR ''.'') 3 = [''k'', ''0102'', ''sssss'']
      \<and> parse_rfc3339 sample_lib ''sssss'' = Some 5000000000 \<and> b64url_decode sample_lib ''0102'' = Some [1, 2]"
    by code_simp
  have g: "base64_contract (b64url_encode sample_lib) (b64url_decode sample_lib) \<and> cbc_contract sample_lib
       \<and> \<not> rand_fail sample_lib
       \<and> (length (g_encryptionKey sample_generator) = 16 \<or> length (g_encryptionKey sample_generator) = 24
            \<or> length (g_encryptionKey sample_generator) = 32)
       \<and> v_encryptionKey (sample_validator 0) = g_encryptionKey sample_generator
       \<and> v_signingKey (sample_validator 0) = g_signingKey sample_generator
       \<and> CHR ''.'' \<notin> set ''k''
       \<and> parse_rfc3339 sample_lib (format_rfc3339 sample_lib (g_now sample_generator + 3000000000)) = Some 5000000000"
    using sample_hyps(1,3,4,5,6,7) sample_cbc by simp
  have u: "(sample_validator 0)\<lparr>v_now := n\<rparr> = sample_validator n" for n
    by (simp add: sample_validator_def)
  note E = expiry_boundary[where L = sample_lib and v = "sample_validator 0" and token = ?tok
      and kind = "''k''" and ?s1.0 = "''070b''"
      and ?s2.0 = "''0102030405060708090a0b0c0d0e0f106c293736373529747474747403030303''"
      and sg = "[7, 11]" and c = ?c and plain = "bytes_of_string ''k.0102.sssss''"
      and ep = "''0102''" and et = "''sssss''" and expiry = 5000000000 and d = "[1, 2]"
      and seen = 4000000000 and g = sample_generator and ttl = 3000000000 and e = 5000000000
      and payload = "[1, 2]"]
  from E w have A: "\<forall>now. validator_Validate sample_lib (sample_validator now) ''k'' ?tok =
             (if now > 5000000000 then Failure errToken else Return [1, 2])"
    and B: "\<forall>now. Validator_Validate sample_lib (sample_validator now) ''k'' ?tok =
             (if now > 5000000000 then Failure TokenExpired else Return [1, 2])"
    unfolding u by blast+
  have acc: "Validator_Validate sample_lib ((sample_validator 0)\<lparr>v_now := 4000000000\<rparr>) ''k'' ?tok = Return [1, 2]"
    unfolding u using B[rule_format, of 4000000000] by simp
  from E[THEN conjunct2, THEN conjunct1] acc
  have P2: "\<exists>et expiry. parse_rfc3339 sample_lib et = Some expiry \<and> (4000000000::int) \<le> expiry"
    by blast
  from E[THEN conjunct2, THEN conjunct2, THEN mp, OF g]
  obtain generated where
    "Generate sample_lib sample_generator ''k'' [1, 2] 3000000000 = Return generated"
    "validator_Validate sample_lib (sample_validator 5000000000) ''k'' generated = Return [1, 2]"
    "validator_Validate sample_lib (sample_validator (5000000000 + 1000000000)) ''k'' generated = Failure errToken"
    unfolding u by (elim exE conjE)
  then have P3: "\<exists>generated. Generate sample_lib sample_generator ''k'' [1, 2] 3000000000 = Return generated
         \<and> validator_Validate sample_lib (sample_validator 5000000000) ''k'' generated = Return [1, 2]
         \<and> validator_Validate sample_lib (sample_validator 6000000000) ''k'' generated = Failure errToken"
    by (intro exI[of _ generated]) simp
  have C: "validator_Validate sample_lib (sample_validator 5000000000) ''k'' ?tok = Return [1, 2]"
    "Validator_Validate sample_lib (sample_validator 5000000000) ''k'' ?tok = Return [1, 2]"
    "validator_Validate sample_lib (sample_validator 5000000001) ''k'' ?tok = Failure errToken"
    "validator_Validate sample_lib (sample_validator 6000000000) ''k'' ?tok = Failure errToken"
    "Validator_Validate sample_lib (sample_validator 6000000000) ''k'' ?tok = Failure TokenExpired"
    using A[rule_format, of 5000000000] B[rule_format, of 5000000000] A[rule_format, of 5000000001]
      A[rule_format, of 6000000000] B[rule_format, of 6000000000]
    by simp_all
  show ?thesis
    by (intro conjI) (rule w1 w2 w3 C P2 P3)+
qed

text \<open>
  Claim C3. For kinds \<open>A \<noteq> B\<close>, a token generated for \<open>B\<close> is rejected under \<open>A\<close>,
  whatever the payload, the \<open>ttl\<close> and the validator's clock, although the signature
  verifies and the decryption succeeds: \<open>Validator.Validate\<close> stops at the kind check, or,
  when \<open>B\<close> has a dot and \<open>A\<close> is its part before the first dot, at the expiry, which is
  then a text with a dot in it.
\<close>

theorem kind_binding:
  assumes b64: "base64_contract (b64url_encode L) (b64url_decode L)"
    and cbc: "cbc_contract L" and rfc: "rfc3339_contract L" and rnd: "\<not> rand_fail L"
    and key: "length (g_encryptionKey g) = 16 \<or> length (g_encryptionKey g) = 24 \<or> length (g_encryptionKey g) = 32"
    and k1: "v_encryptionKey v = g_encryptionKey g" and k2: "v_signingKey v = g_signingKey g"
    and AB: "A \<noteq> B"
  shows "\<exists>token. Generate L g B payload ttl = Return token
           \<and> validator_Validate L v A token = Failure errToken
           \<and> (Validator_Validate L v A token = Failure KindMismatch
               \<or> (CHR ''.'' \<in> set B \<and> Validator_Validate L v A token = Failure InvalidExpiry))"
proof -
  obtain c plain where G: "Generate L g B payload ttl =
               Return (b64url_encode L (ComputeSHA256 L (g_signingKey g) c) @ ''.'' @ b64url_encode L c)"
    and D: "Decrypt L (g_encryptionKey g) c = Return plain"
    and P: "string_of_bytes plain = B @ CHR ''.'' # b64url_encode L payload @ CHR ''.'' # format_rfc3339 L (g_now g + ttl)"
    using generated_record[OF cbc rnd key, of B payload ttl] by (elim exE conjE)
  let ?token = "b64url_encode L (ComputeSHA256 L (g_signingKey g) c) @ ''.'' @ b64url_encode L c"
  let ?f = "format_rfc3339 L (g_now g + ttl)"
  have nd: "CHR ''.'' \<notin> set (b64url_encode L payload)" using b64 unfolding base64_contract_def by blast
  have D': "Decrypt L (v_encryptionKey v) c = Return plain" using D k1 by simp
  obtain p0 p1 p2 where S: "SplitN (string_of_bytes plain) (CHR ''.'') 3 = [p0, p1, p2]"
    and cases: "(CHR ''.'' \<notin> set B \<and> p0 = B \<and> p1 = b64url_encode L payload \<and> p2 = ?f)
              \<or> (CHR ''.'' \<in> set B \<and> p0 \<noteq> B \<and> (\<exists>s. p2 = s @ CHR ''.'' # ?f))"
    using SplitN3_record[OF nd, of B ?f] unfolding P by (elim exE conjE)
  note W1 = validator_Validate_wire[OF b64 D' S, of A]
  note W2 = Validator_Validate_wire[OF b64 D' S, of A]
  from cases have "validator_Validate L v A ?token = Failure errToken
           \<and> (Validator_Validate L v A ?token = Failure KindMismatch
               \<or> (CHR ''.'' \<in> set B \<and> Validator_Validate L v A ?token = Failure InvalidExpiry))"
  proof
    assume "CHR ''.'' \<notin> set B \<and> p0 = B \<and> p1 = b64url_encode L payload \<and> p2 = ?f"
    then show ?thesis using W1 W2 AB by (simp add: k2)
  next
    assume a: "CHR ''.'' \<in> set B \<and> p0 \<noteq> B \<and> (\<exists>s. p2 = s @ CHR ''.'' # ?f)"
    then obtain s where p2: "p2 = s @ CHR ''.'' # ?f" by blast
    have "parse_rfc3339 L (s @ ''.'' @ ?f) = None" using rfc unfolding rfc3339_contract_def by blast
    then have "parse_rfc3339 L p2 = None" by (simp add: p2)
    then show ?thesis using W1 W2 a by (simp add: k2)
  qed
  then show ?thesis using G by (intro exI[of _ ?token]) simp
qed
theorem kind_binding_witness:
  "Generate sample_lib sample_generator ''a.b'' [1] 3000000000 =
     Return ''074f.0102030405060708090a0b0c0d0e0f1066296529373629747474747403030303''
   \<and> validator_Validate sample_lib (sample_validator 0) ''a''
       ''074f.0102030405060708090a0b0c0d0e0f1066296529373629747474747403030303'' = Failure errToken
   \<and> validator_Validate sample_lib (sample_validator 0) ''k''
       ''074f.0102030405060708090a0b0c0d0e0f1066296529373629747474747403030303'' = Failure errToken"
proof -
  have G: "Generate sample_lib sample_generator ''a.b'' [1] 3000000000 =
     Return ''074f.0102030405060708090a0b0c0d0e0f1066296529373629747474747403030303''"
    by code_simp
  have n1: "''a'' \<noteq> ''a.b''" and n2: "''k'' \<noteq> ''a.b''" by simp_all
  from kind_binding[where payload = "[1]" and ttl = 3000000000 and v = "sample_validator 0",
         OF sample_hyps(1) sample_cbc sample_rfc3339 sample_hyps(3,4,5,6) n1]
       kind_binding[where payload = "[1]" and ttl = 3000000000 and v = "sample_validator 0",
         OF sample_hyps(1) sample_cbc sample_rfc3339 sample_hyps(3,4,5,6) n2]
  show ?thesis by (simp add: G)
qed

text \<open>
  Claim C4 (as amended). Every rejection of \<open>validator.Validate\<close>, the validator behind
  the \<open>Validator\<close> interface, returns the one error \<open>errToken\<close> ("token is missing,
  invalid or has expired"), whatever the cause.
\<close>

theorem uniform_rejection_error:
  "validator_Validate L v kind token = Failure e \<Longrightarrow> e = errToken"
  unfolding validator_Validate_def Let_def
  by (simp split: if_splits option.splits outcome.splits)

theorem uniform_rejection_error_witness:
  "validator_Validate sample_lib (sample_validator 0) ''k'' [] = Failure errToken
   \<and> validator_Validate sample_lib (sample_validator 0) ''k'' ''0700'' = Failure errToken
   \<and> validator_Validate sample_lib (sample_validator 0) ''k'' ''07zz.0102'' = Failure errToken
   \<and> validator_Validate sample_lib (sample_validator 0) ''k'' ''0708.0102'' = Failure errToken
   \<and> validator_Validate sample_lib (sample_validator 9000000000) ''k''
       ''070b.0102030405060708090a0b0c0d0e0f106c293736373529747474747403030303'' = Failure errToken"
proof -
  have "case validator_Validate sample_lib (sample_validator 0) ''k'' ''0708.0102'' of
          Failure e \<Rightarrow> True | _ \<Rightarrow> False"
    by code_simp
  then obtain e where e: "validator_Validate sample_lib (sample_validator 0) ''k'' ''0708.0102'' = Failure e"
    by (auto split: outcome.splits)
  have 1: "validator_Validate sample_lib (sample_validator 0) ''k'' ''0708.0102'' = Failure errToken"
    using uniform_rejection_error[OF e] e by simp
  have 2: "validator_Validate sample_lib (sample_validator 0) ''k'' [] = Failure errToken
   \<and> validator_Validate sample_lib (sample_validator 0) ''k'' ''0700'' = Failure errToken
   \<and> validator_Validate sample_lib (sample_validator 0) ''k'' ''07zz.0102'' = Failure errToken
   \<and> validator_Validate sample_lib (sample_validator 9000000000) ''k''
       ''070b.0102030405060708090a0b0c0d0e0f106c293736373529747474747403030303'' = Failure errToken"
    by code_simp
  show ?thesis using 1 2 by simp
qed

text \<open>
  Claim C4 as stated, for every token \<open>Validate\<close>, fails on \<open>Validator.Validate\<close>, the
  exported struct's method: it returns an error of its own on each rejection path.
\<close>

theorem uniform_rejection_error_counterexample:
  "Validator_Validate sample_lib (sample_validator 0) ''k'' [] = Failure EmptyToken
   \<and> Validator_Validate sample_lib (sample_validator 0) ''k'' ''0700'' = Failure TokenNotTwoParts
   \<and> Validator_Validate sample_lib (sample_validator 0) ''k'' ''07zz.0102'' = Failure SignatureNotBase64
   \<and> Validator_Validate sample_lib (sample_validator 0) ''k'' ''0708.0102zz'' = Failure DataNotBase64
   \<and> Validator_Validate sample_lib (sample_validator 0) ''k'' ''0708.0102'' = Failure SignatureMismatch
   \<and> Validator_Validate sample_lib (sample_validator 0) ''a.b''
       ''074f.0102030405060708090a0b0c0d0e0f1066296529373629747474747403030303'' = Failure KindMismatch
   \<and> Validator_Validate sample_lib (sample_validator 9000000000) ''k''
       ''070b.0102030405060708090a0b0c0d0e0f106c293736373529747474747403030303'' = Failure TokenExpired"
  by code_simp

lemma Decrypt_short:
  assumes "length key = 16 \<or> length key = 24 \<or> length key = 32" and "length scrambled < 16"
  shows "Decrypt L key scrambled = Panic"
  using assms by (auto simp: Decrypt_def BlockSize_def Let_def)

text \<open>
  Claim C10. For every key of 16, 24 or 32 bytes, \<open>Decrypt\<close> panics on a ciphertext of
  fewer than 16 bytes instead of returning an error; so both token validators panic on a
  wire token whose ciphertext segment decodes to fewer than 16 bytes and whose signature
  segment decodes to the HMAC of those bytes.
\<close>

theorem short_ciphertext_panics:
  assumes key: "length key = 16 \<or> length key = 24 \<or> length key = 32"
    and short: "length cipher < 16"
  shows "Decrypt L key cipher = Panic
       \<and> (\<forall>v kind sg ct. v_encryptionKey v = key \<and> CHR ''.'' \<notin> set sg
             \<and> b64url_decode L sg = Some (ComputeSHA256 L (v_signingKey v) cipher)
             \<and> b64url_decode L ct = Some cipher
           \<longrightarrow> validator_Validate L v kind (sg @ ''.'' @ ct) = Panic
             \<and> Validator_Validate L v kind (sg @ ''.'' @ ct) = Panic)"
proof -
  have D: "Decrypt L key cipher = Panic" by (rule Decrypt_short[OF key short])
  have "validator_Validate L v kind (sg @ ''.'' @ ct) = Panic \<and> Validator_Validate L v kind (sg @ ''.'' @ ct) = Panic"
    if h: "v_encryptionKey v = key" "CHR ''.'' \<notin> set sg"
      "b64url_decode L sg = Some (ComputeSHA256 L (v_signingKey v) cipher)"
      "b64url_decode L ct = Some cipher" for v kind sg ct
  proof -
    have S: "SplitN (sg @ CHR ''.'' # ct) (CHR ''.'') 2 = [sg, ct]" by (rule SplitN2[OF h(2)])
    have V: "ValidateSHA256 L (v_signingKey v) cipher (ComputeSHA256 L (v_signingKey v) cipher)"
      by (simp add: ValidateSHA256_def Validate_def ComputeSHA256_def Hashes_iff)
    have D': "Decrypt L (v_encryptionKey v) cipher = Panic" using D h(1) by simp
    show ?thesis
      unfolding validator_Validate_def Validator_Validate_def Let_def
      by (simp add: S h(3,4) V D')
  qed
  then show ?thesis using D by blast
qed

theorem short_ciphertext_panics_witness:
  "Decrypt sample_lib (7 # replicate 15 0) [1, 2, 3] = Panic
   \<and> validator_Validate sample_lib (sample_validator 0) ''k'' ''0700.010203'' = Panic
   \<and> Validator_Validate sample_lib (sample_validator 0) ''k'' ''0700.010203'' = Panic"
proof -
  have k: "length (7 # replicate 15 (0::byte)) = 16 \<or> length (7 # replicate 15 (0::byte)) = 24 \<or> length (7 # replicate 15 (0::byte)) = 32"
    by simp
  have s: "length [1, 2, 3 :: byte] < 16" by simp
  have h: "v_encryptionKey (sample_validator 0) = 7 # replicate 15 0 \<and> CHR ''.'' \<notin> set ''0700''
             \<and> b64url_decode sample_lib ''0700'' = Some (ComputeSHA256 sample_lib (v_signingKey (sample_validator 0)) [1, 2, 3])
             \<and> b64url_decode sample_lib ''010203'' = Some [1, 2, 3]"
    by code_simp
  note T = short_ciphertext_panics[where L = sample_lib, OF k s]
  from T have D: "Decrypt sample_lib (7 # replicate 15 0) [1, 2, 3] = Panic" by (rule conjunct1)
  from T have A: "\<forall>v kind sg ct. v_encryptionKey v = 7 # replicate 15 0 \<and> CHR ''.'' \<notin> set sg
             \<and> b64url_decode sample_lib sg = Some (ComputeSHA256 sample_lib (v_signingKey v) [1, 2, 3])
             \<and> b64url_decode sample_lib ct = Some [1, 2, 3]
           \<longrightarrow> validator_Validate sample_lib v kind (sg @ ''.'' @ ct) = Panic
             \<and> Validator_Validate sample_lib v kind (sg @ ''.'' @ ct) = Panic"
    by (rule conjunct2)
  from A[rule_format, where v = "sample_validator 0" and sg = "''0700''" and ct = "''010203''" and kind = "''k''", OF h]
  show ?thesis using D by simp
qed

section \<open>Properties of package pwd\<close>

lemma Split_nodot: "c \<notin> set s \<Longrightarrow> Split s c = [s]"
  by (induction s) auto

lemma Split_append: "c \<notin> set a \<Longrightarrow> Split (a @ c # rest) c = a # Split rest c"
  by (induction a) auto

lemma Split3:
  assumes "CHR ''.'' \<notin> set a" "CHR ''.'' \<notin> set b" "CHR ''.'' \<notin> set d"
  shows "Split (a @ CHR ''.'' # b @ CHR ''.'' # d) (CHR ''.'') = [a, b, d]"
  using assms by (simp add: Split_append Split_nodot)

lemma parsePasswordHash_parts:
  assumes "Split stored (CHR ''.'') = [st, es, eh]"
    and "b64std_decode L es = Some slt" and "b64std_decode L eh = Some hsh"
  shows "parsePasswordHash L stored =
           Return (Some \<lparr>ph_salt = slt, ph_hash = hsh, ph_strategy = st, ph_base64Salt = es, ph_base64Hash = eh\<rparr>)"
proof -
  have "stored \<noteq> []" using assms(1) by auto
  then show ?thesis using assms by (simp add: parsePasswordHash_def Let_def)
qed

lemma parsePasswordHash_malformed:
  "parsePasswordHash L [] = Failure (errInvalidPwdh [])"
  "length (Split stored (CHR ''.'')) \<noteq> 3 \<Longrightarrow> parsePasswordHash L stored = Failure (errInvalidPwdh stored)"
  "Split stored (CHR ''.'') = [st, es, eh] \<Longrightarrow> b64std_decode L es = None \<or> b64std_decode L eh = None
     \<Longrightarrow> parsePasswordHash L stored = Failure (errInvalidPwdh stored)"
  by (auto simp: parsePasswordHash_def Let_def split: option.splits)

lemma ValidatePassword_parsed:
  assumes "parse stored = Return (Some ph)" and "factory (ph_strategy ph) = Return (Some f)" and "p \<noteq> []"
  shows "ValidatePassword (newValidator (Some parse) (Some factory) d) p stored =
           Return (f (bytes_of_string p) (ph_salt ph) = ph_hash ph,
                   f (bytes_of_string p) (ph_salt ph) = ph_hash ph \<and> ph_strategy ph \<noteq> d)"
  using assms
  by (auto simp: ValidatePassword_def validatePassword_def newValidator_def Let_def Hashes_iff)

lemma ValidatePassword_unparsed:
  assumes "parse stored = Failure e"
  shows "ValidatePassword (newValidator (Some parse) factory d) p stored = Return (False, False)"
  using assms by (simp add: ValidatePassword_def newValidator_def)


text \<open>
  Claim C5 (as amended). For every non-empty password \<open>p\<close> and every strategy without a
  dot that the factory resolves: the hasher built for the strategy returns a stored hash
  (when its salt function returns), and the validator whose default strategy is the same
  strategy answers \<open>(true, false)\<close> on \<open>p\<close> and that stored hash. The standard base64
  encoding is assumed to meet its contract.
\<close>

theorem password_round_trip:
  assumes b64: "base64_contract (b64std_encode L) (b64std_decode L)"
    and fac: "factory strategy = Return (Some f)"
    and gen: "generateSalt 32 = Return salt"
    and p: "p \<noteq> []"
    and nd: "CHR ''.'' \<notin> set strategy"
  shows "\<exists>h stored. newHasher (Some generateSalt) (Some factory) strategy = Return h
           \<and> ComputeHash L h p = Return stored
           \<and> ValidatePassword (newValidator (Some (parsePasswordHash L)) (Some factory) strategy) p stored
               = Return (True, False)"
proof -
  let ?h = "\<lparr>h_generateSalt = Some generateSalt, h_computeHash = Some f, h_strategy = strategy\<rparr>"
  let ?hash = "f (bytes_of_string p) salt"
  let ?stored = "strategy @ CHR ''.'' # b64std_encode L salt @ CHR ''.'' # b64std_encode L ?hash"
  have H: "newHasher (Some generateSalt) (Some factory) strategy = Return ?h"
    by (simp add: newHasher_def fac)
  have C: "ComputeHash L ?h p = Return ?stored"
    by (simp add: ComputeHash_def computePasswordHash_def gen passwordHash_String_def Let_def)
  have n1: "CHR ''.'' \<notin> set (b64std_encode L salt)" and n2: "CHR ''.'' \<notin> set (b64std_encode L ?hash)"
    using b64 unfolding base64_contract_def by blast+
  have d1: "b64std_decode L (b64std_encode L salt) = Some salt"
    and d2: "b64std_decode L (b64std_encode L ?hash) = Some ?hash"
    using b64 unfolding base64_contract_def by blast+
  have S: "Split ?stored (CHR ''.'') = [strategy, b64std_encode L salt, b64std_encode L ?hash]"
    by (rule Split3[OF nd n1 n2])
  note P = parsePasswordHash_parts[OF S d1 d2]
  have V: "ValidatePassword (newValidator (Some (parsePasswordHash L)) (Some factory) strategy) p ?stored
             = Return (True, False)"
    using ValidatePassword_parsed[where parse = "parsePasswordHash L" and factory = factory and d = strategy, OF P _ p, of f]
    by (simp add: fac)
  show ?thesis using H C V by blast
qed

theorem password_round_trip_witness:
  "(case NewHasher sample_lib of Return h \<Rightarrow> ComputeHash sample_lib h ''pw'' | _ \<Rightarrow> Panic) =
     Return ''pbkdf2/hmacsha256/12/G8.0102030405060708090a0b0c0d0e0f101112131415161718191a1b1c1d1e1f20.70770102030405060708090a0b0c0d0e0f101112131415161718191a1b1c1d1e1f20''
   \<and> ValidatePassword (NewValidator sample_lib) ''pw''
       ''pbkdf2/hmacsha256/12/G8.0102030405060708090a0b0c0d0e0f101112131415161718191a1b1c1d1e1f20.70770102030405060708090a0b0c0d0e0f101112131415161718191a1b1c1d1e1f20''
       = Return (True, False)"
proof -
  have E: "(case NewHasher sample_lib of Return h \<Rightarrow> ComputeHash sample_lib h ''pw'' | _ \<Rightarrow> Panic) =
     Return ''pbkdf2/hmacsha256/12/G8.0102030405060708090a0b0c0d0e0f101112131415161718191a1b1c1d1e1f20.70770102030405060708090a0b0c0d0e0f101112131415161718191a1b1c1d1e1f20''"
    by code_simp
  have b: "base64_contract (b64std_encode sample_lib) (b64std_decode sample_lib)"
    by (simp add: sample_lib_def sample_b64)
  have "case createPasswordHashingStrategy sample_lib defaultStrategy of Return (Some f) \<Rightarrow> True | _ \<Rightarrow> False"
    by code_simp
  then obtain f where f: "createPasswordHashingStrategy sample_lib defaultStrategy = Return (Some f)"
    by (auto split: outcome.splits option.splits)
  have "case GenerateBytes sample_lib 32 of Return s \<Rightarrow> True | _ \<Rightarrow> False" by code_simp
  then obtain salt where g: "GenerateBytes sample_lib 32 = Return salt"
    by (auto split: outcome.splits)
  have p: "''pw'' \<noteq> []" by simp
  have nd: "CHR ''.'' \<notin> set defaultStrategy" by (simp add: defaultStrategy_def)
  from password_round_trip[where L = sample_lib and factory = "createPasswordHashingStrategy sample_lib"
      and strategy = defaultStrategy and f = f and generateSalt = "GenerateBytes sample_lib" and salt = salt,
      OF b f g p nd]
  obtain h stored where H: "NewHasher sample_lib = Return h"
    and C: "ComputeHash sample_lib h ''pw'' = Return stored"
    and V: "ValidatePassword (NewValidator sample_lib) ''pw'' stored = Return (True, False)"
    unfolding NewHasher_def NewValidator_def by (elim exE conjE)
  have "stored = ''pbkdf2/hmacsha256/12/G8.0102030405060708090a0b0c0d0e0f101112131415161718191a1b1c1d1e1f20.70770102030405060708090a0b0c0d0e0f101112131415161718191a1b1c1d1e1f20''"
    using E H C by simp
  then show ?thesis using E V by simp
qed

text \<open>
  Claim C5 as stated fails for the empty password, on which \<open>validatePassword\<close> returns
  \<open>(false, false)\<close> before it computes anything; and for a strategy with a dot, whose
  stored hash has more than three parts and does not parse.
\<close>

theorem password_round_trip_counterexample:
  "(case NewHasher sample_lib of Return h \<Rightarrow> ComputeHash sample_lib h [] | _ \<Rightarrow> Panic) =
     Return ''pbkdf2/hmacsha256/12/G8.0102030405060708090a0b0c0d0e0f101112131415161718191a1b1c1d1e1f20.0102030405060708090a0b0c0d0e0f101112131415161718191a1b1c1d1e1f20''
   \<and> ValidatePassword (NewValidator sample_lib) []
       ''pbkdf2/hmacsha256/12/G8.0102030405060708090a0b0c0d0e0f101112131415161718191a1b1c1d1e1f20.0102030405060708090a0b0c0d0e0f101112131415161718191a1b1c1d1e1f20''
       = Return (False, False)
   \<and> (case newHasher (Some (\<lambda>n. Return [1, 2])) (Some (\<lambda>s. Return (Some (\<lambda>password salt. password @ salt)))) ''v1.0'' of
         Return h \<Rightarrow> ComputeHash sample_lib h ''pw'' | _ \<Rightarrow> Panic) = Return ''v1.0.0102.70770102''
   \<and> ValidatePassword (newValidator (Some (parsePasswordHash sample_lib))
         (Some (\<lambda>s. Return (Some (\<lambda>password salt. password @ salt)))) ''v1.0'') ''pw'' ''v1.0.0102.70770102''
       = Return (False, False)"
  by code_simp




section \<open>Malformed inputs\<close>

lemma Validate_empty:
  "validator_Validate L v kind [] = Failure errToken"
  "Validator_Validate L v kind [] = Failure EmptyToken"
  by (simp_all add: validator_Validate_def Validator_Validate_def)

lemma Validate_nodot:
  "CHR ''.'' \<notin> set token \<Longrightarrow> validator_Validate L v kind token = Failure errToken"
  "CHR ''.'' \<notin> set token \<Longrightarrow> token \<noteq> [] \<Longrightarrow> Validator_Validate L v kind token = Failure TokenNotTwoParts"
  by (simp_all add: validator_Validate_def Validator_Validate_def SplitN2_nodot)

lemma Validate_not_base64:
  assumes a: "CHR ''.'' \<notin> set a" and n: "b64url_decode L a = None \<or> b64url_decode L b = None"
  shows "validator_Validate L v kind (a @ ''.'' @ b) = Failure errToken"
    and "Validator_Validate L v kind (a @ ''.'' @ b) = Failure SignatureNotBase64
         \<or> Validator_Validate L v kind (a @ ''.'' @ b) = Failure DataNotBase64"
proof -
  have S: "SplitN (a @ CHR ''.'' # b) (CHR ''.'') 2 = [a, b]" by (rule SplitN2[OF a])
  show "validator_Validate L v kind (a @ ''.'' @ b) = Failure errToken"
    using n unfolding validator_Validate_def Let_def by (auto simp: S split: option.splits)
  show "Validator_Validate L v kind (a @ ''.'' @ b) = Failure SignatureNotBase64
         \<or> Validator_Validate L v kind (a @ ''.'' @ b) = Failure DataNotBase64"
    using n unfolding Validator_Validate_def Let_def by (auto simp: S split: option.splits)
qed

text \<open>
  Claim C9. For every expected kind, both token validators return an error on the empty
  token, on a token without a dot (so without the two parts signature and ciphertext) and on
  a token one of whose two segments is not base64. For every password, \<open>ValidatePassword\<close>
  of the exported validator returns \<open>(false, false)\<close> on the empty stored hash, on a
  stored hash that does not have three dot-separated parts, and on one whose salt or hash
  segment is not base64. None of these calls panics.
\<close>

theorem malformed_input_resilience:
  "validator_Validate L v kind [] = Failure errToken
   \<and> Validator_Validate L v kind [] = Failure EmptyToken
   \<and> (CHR ''.'' \<notin> set token \<longrightarrow> validator_Validate L v kind token = Failure errToken)
   \<and> (CHR ''.'' \<notin> set token \<and> token \<noteq> [] \<longrightarrow> Validator_Validate L v kind token = Failure TokenNotTwoParts)
   \<and> (CHR ''.'' \<notin> set a \<and> (b64url_decode L a = None \<or> b64url_decode L b = None) \<longrightarrow>
        validator_Validate L v kind (a @ ''.'' @ b) = Failure errToken
        \<and> (Validator_Validate L v kind (a @ ''.'' @ b) = Failure SignatureNotBase64
           \<or> Validator_Validate L v kind (a @ ''.'' @ b) = Failure DataNotBase64))
   \<and> ValidatePassword (NewValidator L) password [] = Return (False, False)
   \<and> (length (Split stored (CHR ''.'')) \<noteq> 3 \<longrightarrow>
        ValidatePassword (NewValidator L) password stored = Return (False, False))
   \<and> (Split stored (CHR ''.'') = [st, es, eh] \<and> (b64std_decode L es = None \<or> b64std_decode L eh = None) \<longrightarrow>
        ValidatePassword (NewValidator L) password stored = Return (False, False))"
proof -
  have P: "parsePasswordHash L s = Failure e \<Longrightarrow>
           ValidatePassword (NewValidator L) password s = Return (False, False)" for s e
    unfolding NewValidator_def by (rule ValidatePassword_unparsed)
  have p1: "ValidatePassword (NewValidator L) password [] = Return (False, False)"
    by (rule P[OF parsePasswordHash_malformed(1)])
  have p2: "length (Split stored (CHR ''.'')) \<noteq> 3 \<Longrightarrow>
        ValidatePassword (NewValidator L) password stored = Return (False, False)"
    by (rule P[OF parsePasswordHash_malformed(2)])
  have p3: "Split stored (CHR ''.'') = [st, es, eh] \<Longrightarrow> b64std_decode L es = None \<or> b64std_decode L eh = None \<Longrightarrow>
        ValidatePassword (NewValidator L) password stored = Return (False, False)"
    by (rule P[OF parsePasswordHash_malformed(3)])
  show ?thesis
    using Validate_empty[where L = L and v = v and kind = kind]
      Validate_nodot[where L = L and v = v and kind = kind and token = token]
      Validate_not_base64[where L = L and v = v and kind = kind and a = a and b = b] p1 p2 p3
    by blast
qed

theorem malformed_input_resilience_witness:
  "validator_Validate sample_lib (sample_validator 0) ''k'' [] = Failure errToken
   \<and> validator_Validate sample_lib (sample_validator 0) ''k'' ''0700'' = Failure errToken
   \<and> validator_Validate sample_lib (sample_validator 0) ''k'' ''07zz.0102'' = Failure errToken
   \<and> validator_Validate sample_lib (sample_validator 0) ''k'' ''0700.01zz'' = Failure errToken
   \<and> ValidatePassword (NewValidator sample_lib) ''pw'' [] = Return (False, False)
   \<and> ValidatePassword (NewValidator sample_lib) ''pw'' ''pbkdf2/hmacsha256/12/G8.0102'' = Return (False, False)
   \<and> ValidatePassword (NewValidator sample_lib) ''pw'' ''pbkdf2/hmacsha256/12/G8.01zz.70770102'' = Return (False, False)"
proof -
  have 1: "CHR ''.'' \<notin> set ''0700''" by simp
  have 2: "CHR ''.'' \<notin> set ''07zz'' \<and> (b64url_decode sample_lib ''07zz'' = None \<or> b64url_decode sample_lib ''0102'' = None)"
    and 3: "CHR ''.'' \<notin> set ''0700'' \<and> (b64url_decode sample_lib ''0700'' = None \<or> b64url_decode sample_lib ''01zz'' = None)"
    and 4: "length (Split ''pbkdf2/hmacsha256/12/G8.0102'' (CHR ''.'')) \<noteq> 3"
    and 5: "Split ''pbkdf2/hmacsha256/12/G8.01zz.70770102'' (CHR ''.'') = [''pbkdf2/hmacsha256/12/G8'', ''01zz'', ''70770102'']
            \<and> (b64std_decode sample_lib ''01zz'' = None \<or> b64std_decode sample_lib ''70770102'' = None)"
    by code_simp+
  note M = malformed_input_resilience[where L = sample_lib and v = "sample_validator 0" and kind = "''k''"
      and password = "''pw''"]
  show ?thesis
    using M[where token = "''0700''" and a = "''07zz''" and b = "''0102''"
            and stored = "''pbkdf2/hmacsha256/12/G8.0102''"]
          M[where a = "''0700''" and b = "''01zz''"
            and stored = "''pbkdf2/hmacsha256/12/G8.01zz.70770102''" and st = "''pbkdf2/hmacsha256/12/G8''"
            and es = "''01zz''" and eh = "''70770102''"]
          1 2 3 4 5
    by simp
qed

end
